theory Spec2Isabelle
  imports Complex_Main
begin

section \<open>Python values, errors and tables\<close>

text \<open>
  The batch job of \<^verbatim>\<open>batch_processing.py\<close>. Python exceptions are values of
  \<open>py_error\<close>; a function that may raise returns \<open>py_error + 'a\<close>. Floating-point
  numbers are modelled by the reals (no rounding, no infinities); the one place where the
  script relies on NaN as a marker has its own type \<open>pyfloat\<close>.
\<close>

datatype py_error =
  KeyError | AttributeError | IndexError | ValueError | TypeError
  | ZeroDivisionError | OperationalError | OtherError

datatype pyfloat = Fl real | NaN

type_synonym address = string
type_synonym coord = "real \<times> real"

text \<open>
  A dict appended to \<^verbatim>\<open>results\<close> in \<^verbatim>\<open>generate_stats\<close>, and a row of the results
  table: the same with the column \<^verbatim>\<open>block\<close>.
\<close>

record stats_row =
  address :: address
  percent_predictions_within_5_res8_krings :: string
  prediction_error_km :: pyfloat
  n_outliers :: nat
  n_beaconers_heard :: nat

record result_row = stats_row +
  block :: int

section \<open>The results table and \<^verbatim>\<open>upsert_predictions\<close>\<close>

text \<open>
  The database session, as far as \<^verbatim>\<open>upsert_predictions\<close> touches it: the committed
  rows of \<^verbatim>\<open>topography_results\<close> and the lines printed so far.
\<close>

record session =
  topography_results :: "result_row list"
  stdout :: "string list"

text \<open>
  \<^verbatim>\<open>query(TopographyResults.address).filter(TopographyResults.address.in_(keys)).all()\<close>:
  the address of every stored row whose address is among the keys.
\<close>

definition query_present :: "session \<Rightarrow> address list \<Rightarrow> address list" where
  "query_present s keys = filter (\<lambda>a. a \<in> set keys) (map address (topography_results s))"

text \<open>
  A Python dict is an association list with distinct keys, in insertion order.
  \<^verbatim>\<open>result_rows.pop(a)\<close> removes the key and raises \<open>KeyError\<close> when it is missing.
\<close>

definition dict_pop :: "'k \<Rightarrow> ('k \<times> 'v) list \<Rightarrow> py_error + ('k \<times> 'v) list" where
  "dict_pop a d = (if a \<in> set (map fst d) then Inr (filter (\<lambda>kv. fst kv \<noteq> a) d) else Inl KeyError)"

text \<open>The loop \<^verbatim>\<open>for each in (...): result_rows.pop(each.address)\<close>.\<close>

fun pop_present :: "'k list \<Rightarrow> ('k \<times> 'v) list \<Rightarrow> py_error + ('k \<times> 'v) list" where
  "pop_present [] d = Inr d"
| "pop_present (a # as) d =
     (case dict_pop a d of Inl e \<Rightarrow> Inl e | Inr d' \<Rightarrow> pop_present as d')"

definition rollback_message :: string where
  "rollback_message = ''Rolling back bulk insert due to operational error''"

text \<open>
  \<^verbatim>\<open>upsert_predictions(result_rows, helium_lite_session)\<close>. The first argument says
  whether \<^verbatim>\<open>commit()\<close> raises \<^verbatim>\<open>sqlalchemy.exc.OperationalError\<close>: that is the
  database's choice, not the script's. The function mutates \<^verbatim>\<open>result_rows\<close> in place,
  so the model returns the caller's mapping as it is after the call, with the session.
  With a commit that raises, the \<^verbatim>\<open>except\<close> clause prints and rolls back: the rows of
  the bulk insert are not stored.
\<close>

definition upsert_predictions ::
  "bool \<Rightarrow> (address \<times> result_row) list \<Rightarrow> session
    \<Rightarrow> py_error + ((address \<times> result_row) list \<times> session)" where
  "upsert_predictions commit_raises result_rows s =
     (case pop_present (query_present s (map fst result_rows)) result_rows of
        Inl e \<Rightarrow> Inl e
      | Inr result_rows' \<Rightarrow>
          (let entries_to_put = map snd result_rows' in
           if commit_raises
           then Inr (result_rows', s\<lparr>stdout := stdout s @ [rollback_message]\<rparr>)
           else Inr (result_rows',
                     s\<lparr>topography_results := topography_results s @ entries_to_put\<rparr>)))"

text \<open>The rows of a mapping whose key is not yet in the table.\<close>

definition new_rows :: "session \<Rightarrow> (address \<times> result_row) list \<Rightarrow> (address \<times> result_row) list" where
  "new_rows s d = filter (\<lambda>kv. fst kv \<notin> set (map address (topography_results s))) d"

text \<open>A mapping as \<^verbatim>\<open>to_dict("index")\<close> builds it: each row is stored under its own address.\<close>

definition keyed_by_address :: "(address \<times> result_row) list \<Rightarrow> bool" where
  "keyed_by_address d = (distinct (map fst d) \<and> list_all (\<lambda>kv. address (snd kv) = fst kv) d)"

section \<open>The gateway inventory\<close>

text \<open>
  A row of \<^verbatim>\<open>gateway_inventory\<close>. The columns \<^verbatim>\<open>location\<close>, \<^verbatim>\<open>gain\<close> and
  \<^verbatim>\<open>elevation\<close> may be NULL.
\<close>

record inventory_row =
  inv_address :: address
  location :: "string option"
  gain :: "real option"
  elevation :: "real option"
  last_block :: int

text \<open>A row of the frame \<^verbatim>\<open>gateway_locations\<close> after the two derived columns are added.\<close>

record gateway_row =
  gw_address :: address
  gw_location :: string
  gw_gain :: real
  gw_elevation :: real
  asserted_location :: coord
  asserted_hex_res8 :: string

text \<open>
  \<^verbatim>\<open>select address, location, gain, elevation from gateway_inventory order by last_block desc\<close>.
  The order among rows of equal \<^verbatim>\<open>last_block\<close> is the database's; the model keeps the
  table's order there.
\<close>

definition read_gateway_inventory :: "inventory_row list \<Rightarrow> inventory_row list" where
  "read_gateway_inventory tbl = sort_key (\<lambda>r. - last_block r) tbl"

text \<open>\<^verbatim>\<open>.set_index("address").dropna()\<close>: a row with a missing column is dropped.\<close>

definition complete_row :: "inventory_row \<Rightarrow> bool" where
  "complete_row r = (location r \<noteq> None \<and> gain r \<noteq> None \<and> elevation r \<noteq> None)"

definition dropna :: "inventory_row list \<Rightarrow> inventory_row list" where
  "dropna rows = filter complete_row rows"

text \<open>
  Lines 235 to 241: the frame \<^verbatim>\<open>gateway_locations\<close> of one sweep. \<open>h3_to_geo\<close> and
  \<open>h3_to_parent\<close> are the hexagonal-index library's functions.
\<close>

definition gateway_locations ::
  "(string \<Rightarrow> coord) \<Rightarrow> (string \<Rightarrow> nat \<Rightarrow> string) \<Rightarrow> inventory_row list \<Rightarrow> gateway_row list" where
  "gateway_locations h3_to_geo h3_to_parent tbl =
     map (\<lambda>r. \<lparr>gw_address = inv_address r, gw_location = the (location r),
               gw_gain = the (gain r), gw_elevation = the (elevation r),
               asserted_location = h3_to_geo (the (location r)),
               asserted_hex_res8 = h3_to_parent (the (location r)) 8\<rparr>)
         (dropna (read_gateway_inventory tbl))"

section \<open>Terrain features of an edge\<close>

record witness_edge =
  edge_transmitter_address :: address
  edge_witness_address :: address
  tx_power :: real
  gain_x :: real
  gain_y :: real
  rssi :: real
  snr :: real
  distance_m :: real
  bearing :: real
  edge_transmitter_coords :: coord

record topo_features =
  ra :: pyfloat
  rq :: pyfloat
  rp :: pyfloat
  rv :: pyfloat
  rz :: pyfloat
  rsk :: pyfloat
  rku :: pyfloat
  deepest_barrier :: pyfloat
  n_barriers :: pyfloat

text \<open>The dict of the \<^verbatim>\<open>except\<close> branch of \<^verbatim>\<open>map_topo_features\<close>.\<close>

definition nan_features :: topo_features where
  "nan_features = \<lparr>ra = NaN, rq = NaN, rp = NaN, rv = NaN, rz = NaN, rsk = NaN, rku = NaN,
                    deepest_barrier = NaN, n_barriers = NaN\<rparr>"

definition isnan :: "pyfloat \<Rightarrow> bool" where
  "isnan v = (case v of NaN \<Rightarrow> True | Fl _ \<Rightarrow> False)"

definition all_absent :: "topo_features \<Rightarrow> bool" where
  "all_absent f = (isnan (ra f) \<and> isnan (rq f) \<and> isnan (rp f) \<and> isnan (rv f) \<and> isnan (rz f)
     \<and> isnan (rsk f) \<and> isnan (rku f) \<and> isnan (deepest_barrier f) \<and> isnan (n_barriers f))"

definition all_present :: "topo_features \<Rightarrow> bool" where
  "all_present f = (\<not> isnan (ra f) \<and> \<not> isnan (rq f) \<and> \<not> isnan (rp f) \<and> \<not> isnan (rv f)
     \<and> \<not> isnan (rz f) \<and> \<not> isnan (rsk f) \<and> \<not> isnan (rku f) \<and> \<not> isnan (deepest_barrier f)
     \<and> \<not> isnan (n_barriers f))"

text \<open>The nine numbers of a profile, in the order \<^verbatim>\<open>ra, rq, rp, rv, rz, rsk, rku,
  deepest_barrier, n_barriers\<close>.\<close>

type_synonym nine = "real \<times> real \<times> real \<times> real \<times> real \<times> real \<times> real \<times> real \<times> real"

text \<open>
  The geometry the script calls: the great-circle distance in kilometres of the library
  \<^verbatim>\<open>haversine\<close>, and \<^verbatim>\<open>get_bearing\<close> and \<^verbatim>\<open>inverse_haversine\<close> of the module
  \<^verbatim>\<open>feature_extraction\<close>. They are parameters of the model.

  What \<^verbatim>\<open>map_topo_features\<close> calls beside them: the raster's
  point sample (one element of \<^verbatim>\<open>rasterio.sample.sample_gen\<close>, which raises outside the
  raster), and the two profile functions of the module \<^verbatim>\<open>feature_extraction\<close>.
\<close>

record geodesy =
  haversine :: "coord \<Rightarrow> coord \<Rightarrow> real"
  get_bearing :: "real \<Rightarrow> real \<Rightarrow> real \<Rightarrow> real \<Rightarrow> real"
  inverse_haversine :: "coord \<Rightarrow> real \<Rightarrow> real \<Rightarrow> coord"

record 'ds terrain = geodesy +
  sample :: "'ds \<Rightarrow> coord \<Rightarrow> py_error + real"
  level_profile :: "real list \<Rightarrow> real list \<Rightarrow> py_error + real list"
  descriptors :: "real list \<Rightarrow> real list \<Rightarrow> py_error + nine"

text \<open>
  Modelled from the spec: \<^verbatim>\<open>extract_topographic_features\<close> of the module
  \<^verbatim>\<open>feature_extraction\<close>, which is not among the sources. The specification says that it
  "computes the nine topographic descriptors from the leveled profile and distance vector" and
  that a degenerate profile is a failure: it raises, or it returns all nine numbers. How the
  numbers are computed is left to the parameter.
\<close>

definition extract_topographic_features ::
  "(real list \<Rightarrow> real list \<Rightarrow> py_error + nine) \<Rightarrow> real list \<Rightarrow> real list
    \<Rightarrow> py_error + topo_features" where
  "extract_topographic_features descr d_vec profile =
     (case descr d_vec profile of
        Inl e \<Rightarrow> Inl e
      | Inr (a, q, p, v, z, sk, ku, db, nb) \<Rightarrow>
          Inr \<lparr>ra = Fl a, rq = Fl q, rp = Fl p, rv = Fl v, rz = Fl z, rsk = Fl sk, rku = Fl ku,
               deepest_barrier = Fl db, n_barriers = Fl nb\<rparr>)"

text \<open>\<^verbatim>\<open>np.arange(0, stop, step)\<close>: the multiples of the step below the stop.\<close>

definition np_arange :: "real \<Rightarrow> real \<Rightarrow> real list" where
  "np_arange stop step = map (\<lambda>k. real k * step) [0..<nat \<lceil>stop / step\<rceil>]"

text \<open>A loop whose body may raise: the first error ends it.\<close>

fun try_map :: "('a \<Rightarrow> py_error + 'b) \<Rightarrow> 'a list \<Rightarrow> py_error + 'b list" where
  "try_map f [] = Inr []"
| "try_map f (x # xs) =
     (case f x of
        Inl e \<Rightarrow> Inl e
      | Inr y \<Rightarrow> (case try_map f xs of Inl e \<Rightarrow> Inl e | Inr ys \<Rightarrow> Inr (y # ys)))"

text \<open>The body of the \<^verbatim>\<open>try\<close> of \<^verbatim>\<open>map_topo_features\<close>.\<close>

definition topo_pipeline :: "'ds terrain \<Rightarrow> witness_edge \<Rightarrow> 'ds \<Rightarrow> py_error + topo_features" where
  "topo_pipeline T x dataset =
     (let d_vec = np_arange (distance_m x / 1000) (3 / 10);
          index_list = map (\<lambda>d. (let c = inverse_haversine T (edge_transmitter_coords x) d (bearing x)
                                   in (snd c, fst c))) d_vec
      in case try_map (sample T dataset) index_list of
           Inl e \<Rightarrow> Inl e
         | Inr elevation_profile \<Rightarrow>
             (case level_profile T d_vec elevation_profile of
                Inl e \<Rightarrow> Inl e
              | Inr leveled \<Rightarrow> extract_topographic_features (descriptors T) d_vec leveled))"

text \<open>
  \<^verbatim>\<open>map_topo_features(x, dataset)\<close>: the bare \<^verbatim>\<open>except\<close> turns every error of the body
  into the dict of NaNs.
\<close>

definition map_topo_features :: "'ds terrain \<Rightarrow> witness_edge \<Rightarrow> 'ds \<Rightarrow> py_error + topo_features" where
  "map_topo_features T x dataset =
     (case topo_pipeline T x dataset of Inl e \<Rightarrow> Inr nan_features | Inr f \<Rightarrow> Inr f)"

section \<open>The edges of one node\<close>

record path_feature =
  topo :: topo_features
  feat_tx_power :: real
  gain_beacon :: real
  gain_witness :: real
  feat_rssi :: real
  feat_snr :: real
  feat_distance_m :: real

record path_detail =
  transmitter_address :: address
  witness_address :: address
  transmitter_coords :: coord

text \<open>
  Line 262: \<^verbatim>\<open>witness_edges[(witness_edges["distance_m"] > 50) & (witness_edges["distance_m"] < 50e3)]\<close>.
\<close>

definition distance_band :: "witness_edge list \<Rightarrow> witness_edge list" where
  "distance_band witness_edges = filter (\<lambda>x. distance_m x > 50 \<and> distance_m x < 50000) witness_edges"

text \<open>
  Lines 266 to 289: the loop over the rows. A row is a record, so every key that the body
  reads is there and the \<^verbatim>\<open>except KeyError\<close> of line 288 has nothing to catch. Beside \<^verbatim>\<open>path_features\<close> and
  \<^verbatim>\<open>path_details\<close> the model keeps the rows for which \<^verbatim>\<open>map_topo_features\<close> was
  called (the raster was sampled), in the order of the calls.
\<close>

fun edge_loop ::
  "'ds terrain \<Rightarrow> 'ds \<Rightarrow> witness_edge list
    \<Rightarrow> path_feature list \<times> path_detail list \<times> witness_edge list
    \<Rightarrow> py_error + (path_feature list \<times> path_detail list \<times> witness_edge list)" where
  "edge_loop T dataset [] acc = Inr acc"
| "edge_loop T dataset (x # xs) (path_features, path_details, sampled) =
     (if distance_m x > 50000 \<or> distance_m x < 50
      then edge_loop T dataset xs (path_features, path_details, sampled)
      else (case map_topo_features T x dataset of
              Inl e \<Rightarrow> Inl e
            | Inr features \<Rightarrow>
                if isnan (ra features)
                then edge_loop T dataset xs (path_features, path_details, sampled @ [x])
                else edge_loop T dataset xs
                       (path_features @
                          [\<lparr>topo = features, feat_tx_power = tx_power x, gain_beacon = gain_x x,
                            gain_witness = gain_y x, feat_rssi = rssi x, feat_snr = snr x,
                            feat_distance_m = distance_m x\<rparr>],
                        path_details @
                          [\<lparr>transmitter_address = edge_transmitter_address x,
                            witness_address = edge_witness_address x,
                            transmitter_coords = edge_transmitter_coords x\<rparr>],
                        sampled @ [x])))"

text \<open>Lines 260 to 289 for one node: the filter, then the loop from empty lists.\<close>

definition extract_path_features ::
  "'ds terrain \<Rightarrow> 'ds \<Rightarrow> witness_edge list
    \<Rightarrow> py_error + (path_feature list \<times> path_detail list \<times> witness_edge list)" where
  "extract_path_features T dataset witness_edges =
     edge_loop T dataset (distance_band witness_edges) ([], [], [])"

section \<open>\<^verbatim>\<open>generate_stats\<close>\<close>

text \<open>A row of \<^verbatim>\<open>details_df\<close>: the details of an edge and the anomaly model's verdict.\<close>

record details_row = path_detail +
  outliers :: int

text \<open>
  What \<^verbatim>\<open>generate_stats\<close> calls beside the geometry: the hexagonal index of a point,
  the cells within k steps of a cell, and \<^verbatim>\<open>np.random.permutation(n)\<close>, which takes the
  generator's state and returns the permutation with the next state.
\<close>

record 'g sampling = geodesy +
  geo_to_h3 :: "real \<Rightarrow> real \<Rightarrow> nat \<Rightarrow> string"
  k_ring :: "string \<Rightarrow> nat \<Rightarrow> string list"
  permutation :: "'g \<Rightarrow> nat \<Rightarrow> nat list \<times> 'g"

definition N :: nat where
  "N = 1000"

text \<open>
  \<^verbatim>\<open>gateway_locations.loc[hotspot]\<close>: \<open>KeyError\<close> for a label that is not in the index.
  With a label that occurs more than once \<^verbatim>\<open>.loc\<close> returns a frame, the two values read
  from it are columns, and the library calls they are passed to raise.
\<close>

definition loc :: "gateway_row list \<Rightarrow> address \<Rightarrow> py_error + gateway_row" where
  "loc gw hotspot =
     (case filter (\<lambda>r. gw_address r = hotspot) gw of
        [] \<Rightarrow> Inl KeyError
      | [r] \<Rightarrow> Inr r
      | _ \<Rightarrow> Inl TypeError)"

text \<open>
  Lines 98 to 133: the body of \<^verbatim>\<open>for i in range(N)\<close>, given the permutation drawn at
  line 98. It returns the loop variable and \<^verbatim>\<open>predicted_locations\<close> as they are at the
  end of the body.
\<close>

definition sample_body ::
  "'g sampling \<Rightarrow> coord list \<Rightarrow> real list \<Rightarrow> coord \<Rightarrow> nat list \<Rightarrow> int \<Rightarrow> coord list
    \<Rightarrow> py_error + (int \<times> coord list)" where
  "sample_body S witness_coords eval_mean asserted perm i predicted_locations =
     (case take 3 perm of
        [idx1, idx2, idx3] \<Rightarrow>
          if length witness_coords \<le> idx1 \<or> length witness_coords \<le> idx2 then Inl IndexError
          else
            (let u = haversine S (witness_coords ! idx1) (witness_coords ! idx2) in
             if u \<le> 5 / 100 then Inr (i, predicted_locations)
             else if length eval_mean \<le> idx1 \<or> length eval_mean \<le> idx2 then Inl IndexError
             else
               (let r1 = eval_mean ! idx1; r2 = eval_mean ! idx2 in
                if r1 > 50 \<or> r2 > 50 then Inr (i - 1, predicted_locations)
                else
                  (let x_prime = (r1 ^ 2 - r2 ^ 2 + u ^ 2) / (2 * u) in
                   if r1 ^ 2 - x_prime ^ 2 < 0 then Inr (i, predicted_locations)
                   else
                     (let y_prime_1 = sqrt (r1 ^ 2 - x_prime ^ 2);
                          y_prime_2 = - y_prime_1;
                          c1 = witness_coords ! idx1;
                          phi_1 = get_bearing S (fst c1) (snd c1) (y_prime_1 + fst c1) (x_prime + snd c1);
                          phi_2 = get_bearing S (fst c1) (snd c1) (y_prime_2 + fst c1) (x_prime + snd c1);
                          pt_1 = inverse_haversine S c1 r1 phi_1;
                          pt_2 = inverse_haversine S c1 r1 phi_2;
                          predicted_location =
                            (if haversine S asserted pt_1 < haversine S asserted pt_2
                             then pt_1 else pt_2)
                      in Inr (i, predicted_locations @ [predicted_location])))))
      | _ \<Rightarrow> Inl ValueError)"

text \<open>
  \<^verbatim>\<open>for i in range(N)\<close> over the values that are left of the range: each round draws a
  permutation, runs the body with the next value of the range, and goes on with the rest of
  the range. The loop variable comes from the range; what the body assigned to it is dropped.
\<close>

fun sample_loop ::
  "'g sampling \<Rightarrow> coord list \<Rightarrow> real list \<Rightarrow> coord \<Rightarrow> nat list \<Rightarrow> 'g \<Rightarrow> coord list
    \<Rightarrow> py_error + ('g \<times> coord list)" where
  "sample_loop S witness_coords eval_mean asserted [] g predicted_locations =
     Inr (g, predicted_locations)"
| "sample_loop S witness_coords eval_mean asserted (k # ks) g predicted_locations =
     (case permutation S g (length witness_coords) of
        (perm, g') \<Rightarrow>
          (case sample_body S witness_coords eval_mean asserted perm (int k) predicted_locations of
             Inl e \<Rightarrow> Inl e
           | Inr (i, predicted_locations') \<Rightarrow>
               sample_loop S witness_coords eval_mean asserted ks g' predicted_locations'))"

text \<open>\<^verbatim>\<open>np.round(x, 1)\<close> in tenths: the nearest integer to ten times x, a tie going to the even one.\<close>

definition rint :: "real \<Rightarrow> int" where
  "rint x = (let f = \<lfloor>x\<rfloor>; d = x - of_int f in
             if d < 1 / 2 then f else if d > 1 / 2 then f + 1 else if even f then f else f + 1)"

definition digit_char :: "nat \<Rightarrow> char" where
  "digit_char d = ''0123456789'' ! d"

fun str_nat :: "nat \<Rightarrow> string" where
  "str_nat n = (if n < 10 then [digit_char n] else str_nat (n div 10) @ [digit_char (n mod 10)])"

declare str_nat.simps [simp del]

text \<open>\<^verbatim>\<open>str(np.round(x, 1))\<close> for x that is not negative: the tenths, written with one decimal.\<close>

definition str_round1 :: "real \<Rightarrow> string" where
  "str_round1 x = (let t = nat (rint (x * 10)) in str_nat (t div 10) @ ''.'' @ str_nat (t mod 10))"

text \<open>\<^verbatim>\<open>100 * pts_in_hex / n_points\<close> on Python integers: division by zero raises.\<close>

definition py_truediv :: "nat \<Rightarrow> nat \<Rightarrow> py_error + real" where
  "py_truediv a b = (if b = 0 then Inl ZeroDivisionError else Inr (real a / real b))"

text \<open>Lines 146 to 149: the \<^verbatim>\<open>try\<close> around the percentage, any error giving the text 0.\<close>

definition percent_text :: "nat \<Rightarrow> nat \<Rightarrow> string" where
  "percent_text pts_in_hex n_points =
     (case py_truediv (100 * pts_in_hex) n_points of
        Inl e \<Rightarrow> ''0''
      | Inr q \<Rightarrow> str_round1 q)"

text \<open>\<^verbatim>\<open>np.median\<close>: NaN for the empty list.\<close>

definition np_median :: "real list \<Rightarrow> pyfloat" where
  "np_median xs =
     (if xs = [] then NaN
      else (let s = sort xs; n = length s in
            Fl (if odd n then s ! (n div 2) else (s ! (n div 2 - 1) + s ! (n div 2)) / 2)))"

text \<open>The distance to a point whose coordinates may be NaN: NaN goes through.\<close>

definition haversine_to :: "(coord \<Rightarrow> coord \<Rightarrow> real) \<Rightarrow> coord \<Rightarrow> pyfloat \<Rightarrow> pyfloat \<Rightarrow> pyfloat" where
  "haversine_to hav a lat lon =
     (case lat of NaN \<Rightarrow> NaN | Fl x \<Rightarrow> (case lon of NaN \<Rightarrow> NaN | Fl y \<Rightarrow> Fl (hav a (x, y))))"

text \<open>
  Lines 135 to 157: the dict appended to \<^verbatim>\<open>results\<close> for a hotspot, from its
  \<^verbatim>\<open>predicted_locations\<close>.
\<close>

definition stats_of ::
  "'g sampling \<Rightarrow> details_row list \<Rightarrow> gateway_row \<Rightarrow> address \<Rightarrow> coord list \<Rightarrow> stats_row" where
  "stats_of S details_df g_row hotspot predicted_locations =
     (let predicted_lat = map fst predicted_locations;
          predicted_lon = map snd predicted_locations;
          rings = k_ring S (asserted_hex_res8 g_row) 5;
          n_points = length predicted_locations;
          pts_in_hex = length (filter (\<lambda>c. geo_to_h3 S (fst c) (snd c) 8 \<in> set rings)
                                 predicted_locations);
          p = percent_text pts_in_hex n_points
      in \<lparr>address = hotspot,
          percent_predictions_within_5_res8_krings = p,
          prediction_error_km =
            haversine_to (haversine S) (asserted_location g_row)
              (np_median predicted_lat) (np_median predicted_lon),
          n_outliers = length (filter (\<lambda>d. witness_address d = hotspot \<and> outliers d < 0) details_df),
          n_beaconers_heard = length (filter (\<lambda>d. witness_address d = hotspot) details_df)\<rparr>)"

text \<open>
  Lines 89 to 157: the body of the loop over the hotspots. \<open>None\<close> is the \<^verbatim>\<open>continue\<close>
  of line 91.
\<close>

definition hotspot_stats ::
  "'g sampling \<Rightarrow> details_row list \<Rightarrow> gateway_row list \<Rightarrow> real list \<Rightarrow> address \<Rightarrow> 'g
    \<Rightarrow> py_error + ('g \<times> stats_row option)" where
  "hotspot_stats S details_df gw eval_mean hotspot g =
     (let witness_coords = map transmitter_coords (filter (\<lambda>d. witness_address d = hotspot) details_df) in
      if length witness_coords < 3 then Inr (g, None)
      else
        (case loc gw hotspot of
           Inl e \<Rightarrow> Inl e
         | Inr g_row \<Rightarrow>
             (case sample_loop S witness_coords eval_mean (asserted_location g_row) [0..<N] g [] of
                Inl e \<Rightarrow> Inl e
              | Inr (g', predicted_locations) \<Rightarrow>
                  Inr (g', Some (stats_of S details_df g_row hotspot predicted_locations)))))"

fun hotspot_loop ::
  "'g sampling \<Rightarrow> details_row list \<Rightarrow> gateway_row list \<Rightarrow> real list \<Rightarrow> address list \<Rightarrow> 'g
    \<Rightarrow> stats_row list \<Rightarrow> py_error + ('g \<times> stats_row list)" where
  "hotspot_loop S details_df gw eval_mean [] g results = Inr (g, results)"
| "hotspot_loop S details_df gw eval_mean (hotspot # hs) g results =
     (case hotspot_stats S details_df gw eval_mean hotspot g of
        Inl e \<Rightarrow> Inl e
      | Inr (g', None) \<Rightarrow> hotspot_loop S details_df gw eval_mean hs g' results
      | Inr (g', Some r) \<Rightarrow> hotspot_loop S details_df gw eval_mean hs g' (results @ [r]))"

text \<open>
  \<^verbatim>\<open>generate_stats(details_df, gateway_locations, eval_mean, current_height)\<close>, with the
  state of the random generator passed through. The hotspots are the distinct witness
  addresses (Python leaves the order of a set open; the model takes the order of the column).
  With no results the frame has no column \<^verbatim>\<open>address\<close> and line 162 raises \<open>KeyError\<close>.
  The result is the dict of \<^verbatim>\<open>to_dict("index")\<close>: each row under its address.
\<close>

definition generate_stats ::
  "'g sampling \<Rightarrow> details_row list \<Rightarrow> gateway_row list \<Rightarrow> real list \<Rightarrow> int \<Rightarrow> 'g
    \<Rightarrow> py_error + ('g \<times> (address \<times> result_row) list)" where
  "generate_stats S details_df gw eval_mean current_height g =
     (case hotspot_loop S details_df gw eval_mean (remdups (map witness_address details_df)) g [] of
        Inl e \<Rightarrow> Inl e
      | Inr (g', results) \<Rightarrow>
          if results = [] then Inl KeyError
          else Inr (g', map (\<lambda>r. (address r,
                                 \<lparr>address = address r,
                                  percent_predictions_within_5_res8_krings =
                                    percent_predictions_within_5_res8_krings r,
                                  prediction_error_km = prediction_error_km r,
                                  n_outliers = n_outliers r,
                                  n_beaconers_heard = n_beaconers_heard r,
                                  block = current_height\<rparr>)) results))"

section \<open>Example data\<close>

text \<open>A results table that holds a row for the address a, and a mapping with rows for a and b.\<close>

definition row_of :: "address \<Rightarrow> result_row" where
  "row_of a = \<lparr>address = a, percent_predictions_within_5_res8_krings = ''0'',
              prediction_error_km = NaN, n_outliers = 0, n_beaconers_heard = 3, block = 7\<rparr>"

definition stored :: session where
  "stored = \<lparr>topography_results = [row_of ''a''], stdout = []\<rparr>"

definition candidates :: "(address \<times> result_row) list" where
  "candidates = [(''a'', row_of ''a''), (''b'', row_of ''b'')]"

text \<open>
  A stand-in for the hexagonal index, and two inventories: one with two rows for the address a,
  one with a row each for a, b and c where the row of b has no location.
\<close>

definition flat_geo :: "string \<Rightarrow> coord" where
  "flat_geo h = (0, 0)"

definition same_cell :: "string \<Rightarrow> nat \<Rightarrow> string" where
  "same_cell h res = h"

definition inventory_twice :: "inventory_row list" where
  "inventory_twice =
     [\<lparr>inv_address = ''a'', location = Some ''x1'', gain = Some 12, elevation = Some 3, last_block = 5\<rparr>,
      \<lparr>inv_address = ''a'', location = Some ''x2'', gain = Some 12, elevation = Some 3, last_block = 9\<rparr>]"

definition inventory_once :: "inventory_row list" where
  "inventory_once =
     [\<lparr>inv_address = ''a'', location = Some ''x1'', gain = Some 12, elevation = Some 3, last_block = 5\<rparr>,
      \<lparr>inv_address = ''b'', location = None, gain = Some 12, elevation = Some 3, last_block = 7\<rparr>,
      \<lparr>inv_address = ''c'', location = Some ''x2'', gain = Some 12, elevation = Some 3, last_block = 9\<rparr>]"

text \<open>
  A flat world: distances and projections in the plane, a raster that is at sea level
  everywhere or that has no data anywhere, a profile that is levelled already, and
  descriptors that are all zero for a profile with at least one point.
\<close>

definition plane_haversine :: "coord \<Rightarrow> coord \<Rightarrow> real" where
  "plane_haversine a b = \<bar>fst a - fst b\<bar> + \<bar>snd a - snd b\<bar>"

definition plane_bearing :: "real \<Rightarrow> real \<Rightarrow> real \<Rightarrow> real \<Rightarrow> real" where
  "plane_bearing lat1 lon1 lat2 lon2 = 0"

definition plane_project :: "coord \<Rightarrow> real \<Rightarrow> real \<Rightarrow> coord" where
  "plane_project c d b = (fst c + d, snd c)"

definition sea_level :: "unit \<Rightarrow> coord \<Rightarrow> py_error + real" where
  "sea_level ds c = Inr 0"

definition off_raster :: "unit \<Rightarrow> coord \<Rightarrow> py_error + real" where
  "off_raster ds c = Inl IndexError"

definition keep_profile :: "real list \<Rightarrow> real list \<Rightarrow> py_error + real list" where
  "keep_profile d_vec profile = Inr profile"

definition zero_descriptors :: "real list \<Rightarrow> real list \<Rightarrow> py_error + nine" where
  "zero_descriptors d_vec profile =
     (if profile = [] then Inl ValueError else Inr (0, 0, 0, 0, 0, 0, 0, 0, 0))"

definition flat_terrain :: "unit terrain" where
  "flat_terrain = \<lparr>haversine = plane_haversine, get_bearing = plane_bearing,
                    inverse_haversine = plane_project, sample = sea_level,
                    level_profile = keep_profile, descriptors = zero_descriptors\<rparr>"

definition no_terrain :: "unit terrain" where
  "no_terrain = \<lparr>haversine = plane_haversine, get_bearing = plane_bearing,
                  inverse_haversine = plane_project, sample = off_raster,
                  level_profile = keep_profile, descriptors = zero_descriptors\<rparr>"

definition edge_of :: "real \<Rightarrow> witness_edge" where
  "edge_of d = \<lparr>edge_transmitter_address = ''t'', edge_witness_address = ''w'', tx_power = 27,
                gain_x = 12, gain_y = 12, rssi = - 100, snr = 1, distance_m = d, bearing = 0,
                edge_transmitter_coords = (0, 0)\<rparr>"

text \<open>
  A generator whose first permutation is the identity and whose later ones swap the second and
  third index, a hexagonal index with one cell, and three places of which the first two are
  the same.
\<close>

definition turn :: "nat \<Rightarrow> nat \<Rightarrow> nat list \<times> nat" where
  "turn g n = ((if g = 0 then [0, 1, 2] else [0, 2, 1]) @ [3..<n], Suc g)"

definition one_cell :: "real \<Rightarrow> real \<Rightarrow> nat \<Rightarrow> string" where
  "one_cell lat lon res = ''cell''"

definition ring_of :: "string \<Rightarrow> nat \<Rightarrow> string list" where
  "ring_of h k = [h]"

definition flat_sampling :: "nat sampling" where
  "flat_sampling = \<lparr>haversine = plane_haversine, get_bearing = plane_bearing,
                     inverse_haversine = plane_project, geo_to_h3 = one_cell, k_ring = ring_of,
                     permutation = turn\<rparr>"

definition two_near_one_far :: "coord list" where
  "two_near_one_far = [(0, 0), (0, 0), (1, 0)]"

section \<open>Reading a decimal text\<close>

text \<open>
  The number that a text such as \<^verbatim>\<open>0\<close> or \<^verbatim>\<open>33.3\<close> denotes: digits, and optionally a
  point and more digits. It is used to say what number the text of a percentage stands for.
\<close>

definition digit_value :: "char \<Rightarrow> nat option" where
  "digit_value c =
     map_of [(CHR ''0'', 0), (CHR ''1'', 1), (CHR ''2'', 2), (CHR ''3'', 3), (CHR ''4'', 4),
             (CHR ''5'', 5), (CHR ''6'', 6), (CHR ''7'', 7), (CHR ''8'', 8), (CHR ''9'', 9)] c"

fun digits_value :: "string \<Rightarrow> nat \<Rightarrow> nat option" where
  "digits_value [] acc = Some acc"
| "digits_value (c # cs) acc =
     (case digit_value c of None \<Rightarrow> None | Some d \<Rightarrow> digits_value cs (10 * acc + d))"

definition text_value :: "string \<Rightarrow> real option" where
  "text_value s =
     (let whole = takeWhile (\<lambda>c. c \<noteq> CHR ''.'') s;
          frac = drop (Suc (length whole)) s
      in if whole = [] then None
         else (case digits_value whole 0 of
                 None \<Rightarrow> None
               | Some a \<Rightarrow>
                   (case digits_value frac 0 of
                      None \<Rightarrow> None
                    | Some b \<Rightarrow> Some (real a + real b / 10 ^ length frac))))"

text \<open>
  A witness w heard three times from one place and a witness v heard twice, and an inventory
  that holds w.
\<close>

definition heard :: "address \<Rightarrow> details_row" where
  "heard w = \<lparr>transmitter_address = ''t'', witness_address = w, transmitter_coords = (0, 0),
              outliers = 1\<rparr>"

definition details_wv :: "details_row list" where
  "details_wv = [heard ''w'', heard ''w'', heard ''w'', heard ''v'', heard ''v'']"

definition inventory_w :: "gateway_row list" where
  "inventory_w = [\<lparr>gw_address = ''w'', gw_location = ''x1'', gw_gain = 12, gw_elevation = 3,
                   asserted_location = (0, 0), asserted_hex_res8 = ''cell''\<rparr>]"

text \<open>A witness w heard from the three places of which the first two are the same.\<close>

definition heard_at :: "address \<Rightarrow> coord \<Rightarrow> details_row" where
  "heard_at w c = \<lparr>transmitter_address = ''t'', witness_address = w, transmitter_coords = c,
                   outliers = 1\<rparr>"

definition details_near_far :: "details_row list" where
  "details_near_far = [heard_at ''w'' (0, 0), heard_at ''w'' (0, 0), heard_at ''w'' (1, 0)]"

section \<open>Properties of \<^verbatim>\<open>upsert_predictions\<close>\<close>

lemma pop_present_filter:
  "distinct as \<Longrightarrow> set as \<subseteq> set (map fst d)
    \<Longrightarrow> pop_present as d = Inr (filter (\<lambda>kv. fst kv \<notin> set as) d)"
proof (induction as arbitrary: d)
  case Nil
  then show ?case by simp
next
  case (Cons a as)
  let ?d' = "filter (\<lambda>kv. fst kv \<noteq> a) d"
  from Cons.prems have a: "a \<in> set (map fst d)" and na: "a \<notin> set as" and das: "distinct as"
    by auto
  have sub: "set as \<subseteq> set (map fst ?d')"
    using Cons.prems by force
  have "pop_present (a # as) d = pop_present as ?d'"
    using a by (simp add: dict_pop_def)
  also have "\<dots> = Inr (filter (\<lambda>kv. fst kv \<notin> set as) ?d')"
    by (rule Cons.IH [OF das sub])
  also have "filter (\<lambda>kv. fst kv \<notin> set as) ?d' = filter (\<lambda>kv. fst kv \<notin> set (a # as)) d"
    by (induction d) auto
  finally show ?case .
qed

lemma query_present_distinct:
  "distinct (map address (topography_results s)) \<Longrightarrow> distinct (query_present s keys)"
  by (simp add: query_present_def)

lemma query_present_set:
  "set (query_present s keys) = set (map address (topography_results s)) \<inter> set keys"
  by (auto simp: query_present_def)

lemma pop_query_present:
  assumes "distinct (map address (topography_results s))"
  shows "pop_present (query_present s (map fst d)) d = Inr (new_rows s d)"
proof -
  have "pop_present (query_present s (map fst d)) d
        = Inr (filter (\<lambda>kv. fst kv \<notin> set (query_present s (map fst d))) d)"
    by (rule pop_present_filter [OF query_present_distinct [OF assms]])
       (auto simp: query_present_set)
  also have "filter (\<lambda>kv. fst kv \<notin> set (query_present s (map fst d))) d = new_rows s d"
    unfolding new_rows_def query_present_set
    by (rule filter_cong) auto
  finally show ?thesis .
qed

lemma upsert_predictions_result:
  assumes "distinct (map address (topography_results s))"
  shows "upsert_predictions c d s =
           Inr (new_rows s d,
                if c then s\<lparr>stdout := stdout s @ [rollback_message]\<rparr>
                else s\<lparr>topography_results := topography_results s @ map snd (new_rows s d)\<rparr>)"
  by (simp add: upsert_predictions_def pop_query_present [OF assms])

lemma new_rows_keys:
  "set (map fst (new_rows s d)) = set (map fst d) - set (map address (topography_results s))"
  by (auto simp: new_rows_def)

lemma new_rows_empty_iff:
  "new_rows s d = [] \<longleftrightarrow> set (map fst d) \<subseteq> set (map address (topography_results s))"
  by (auto simp: new_rows_def filter_empty_conv)

lemma keyed_new_rows: "keyed_by_address d \<Longrightarrow> keyed_by_address (new_rows s d)"
  by (auto simp: keyed_by_address_def new_rows_def distinct_map_filter list_all_iff)

lemma keyed_addresses: "keyed_by_address d \<Longrightarrow> map address (map snd d) = map fst d"
  by (induction d) (auto simp: keyed_by_address_def)

lemma distinct_after_insert:
  assumes "distinct (map address (topography_results s))" and "keyed_by_address d"
  shows "distinct (map address (topography_results s @ map snd (new_rows s d)))"
proof -
  have k: "map address (map snd (new_rows s d)) = map fst (new_rows s d)"
    by (rule keyed_addresses [OF keyed_new_rows [OF assms(2)]])
  have "distinct (map fst (new_rows s d))"
    using keyed_new_rows [OF assms(2)] by (simp add: keyed_by_address_def)
  moreover have "set (map address (topography_results s)) \<inter> set (map fst (new_rows s d)) = {}"
    unfolding new_rows_keys by auto
  ultimately show ?thesis
    using assms(1) k by (simp del: map_map)
qed

lemma all_present_after_insert:
  assumes "keyed_by_address d"
    and "topography_results s1 = topography_results s @ map snd (new_rows s d)"
  shows "new_rows s1 d = []" and "new_rows s1 (new_rows s d) = []"
proof -
  have k: "map address (map snd (new_rows s d)) = map fst (new_rows s d)"
    by (rule keyed_addresses [OF keyed_new_rows [OF assms(1)]])
  have a: "set (map address (topography_results s1))
        = set (map address (topography_results s)) \<union> set (map fst (new_rows s d))"
    using k by (simp add: assms(2) del: map_map)
  show "new_rows s1 d = []"
    unfolding new_rows_empty_iff a new_rows_keys by auto
  show "new_rows s1 (new_rows s d) = []"
    unfolding new_rows_empty_iff a by auto
qed

text \<open>
  C3. \<^verbatim>\<open>upsert_predictions\<close> only inserts, and doing it twice inserts once. With a table
  of distinct addresses, a mapping that stores each row under its address and a commit that
  succeeds, the call leaves the stored rows as they are and appends the rows whose address was
  not stored; a second call, with the same rows or with the mapping as the first call left it,
  inserts nothing, whatever its commit does.
\<close>

theorem upsert_predictions_idempotent:
  assumes "distinct (map address (topography_results s))" and "keyed_by_address d"
  shows "\<exists>s1. upsert_predictions False d s = Inr (new_rows s d, s1)
          \<and> topography_results s1 = topography_results s @ map snd (new_rows s d)
          \<and> (\<forall>c. \<exists>s2. upsert_predictions c d s1 = Inr ([], s2)
                  \<and> topography_results s2 = topography_results s1)
          \<and> (\<forall>c. \<exists>s2. upsert_predictions c (new_rows s d) s1 = Inr ([], s2)
                  \<and> topography_results s2 = topography_results s1)"
proof -
  let ?s1 = "s\<lparr>topography_results := topography_results s @ map snd (new_rows s d)\<rparr>"
  have t1: "topography_results ?s1 = topography_results s @ map snd (new_rows s d)"
    by simp
  have d1: "distinct (map address (topography_results ?s1))"
    using distinct_after_insert [OF assms] by simp
  have first: "upsert_predictions False d s = Inr (new_rows s d, ?s1)"
    by (simp add: upsert_predictions_result [OF assms(1)])
  have e1: "new_rows ?s1 d = []" and e2: "new_rows ?s1 (new_rows s d) = []"
    using all_present_after_insert [OF assms(2) t1] by blast+
  have second: "\<exists>s2. upsert_predictions c d' ?s1 = Inr ([], s2)
                  \<and> topography_results s2 = topography_results ?s1"
    if "new_rows ?s1 d' = []" for c d'
    using that by (simp add: upsert_predictions_result [OF d1])
  from first t1 second [OF e1] second [OF e2] show ?thesis
    by blast
qed

text \<open>The table with a row for a, and rows for a and b: only the row for b is inserted, once.\<close>

theorem upsert_predictions_idempotent_witness:
  "distinct (map address (topography_results stored)) \<and> keyed_by_address candidates
   \<and> upsert_predictions False candidates stored
       = Inr ([(''b'', row_of ''b'')], \<lparr>topography_results = [row_of ''a'', row_of ''b''], stdout = []\<rparr>)
   \<and> upsert_predictions False candidates \<lparr>topography_results = [row_of ''a'', row_of ''b''], stdout = []\<rparr>
       = Inr ([], \<lparr>topography_results = [row_of ''a'', row_of ''b''], stdout = []\<rparr>)"
proof -
  have h1: "distinct (map address (topography_results stored))"
    by (simp add: stored_def row_of_def)
  have h2: "keyed_by_address candidates"
    by (simp add: keyed_by_address_def candidates_def row_of_def)
  have n: "new_rows stored candidates = [(''b'', row_of ''b'')]"
    by (simp add: new_rows_def stored_def candidates_def row_of_def)
  from upsert_predictions_idempotent [OF h1 h2]
  obtain s1 where a: "upsert_predictions False candidates stored = Inr (new_rows stored candidates, s1)"
    and b: "topography_results s1 = topography_results stored @ map snd (new_rows stored candidates)"
    and c: "\<forall>c. \<exists>s2. upsert_predictions c candidates s1 = Inr ([], s2)
                  \<and> topography_results s2 = topography_results s1"
    by blast
  have s1: "s1 = \<lparr>topography_results = [row_of ''a'', row_of ''b''], stdout = []\<rparr>"
  proof -
    have "s1 = stored\<lparr>topography_results := topography_results stored @ map snd (new_rows stored candidates)\<rparr>"
      using a by (simp add: upsert_predictions_result [OF h1])
    then show ?thesis unfolding n by (simp add: stored_def)
  qed
  from c obtain s2 where d: "upsert_predictions False candidates s1 = Inr ([], s2)"
    and e: "topography_results s2 = topography_results s1" by blast
  have "s2 = s1"
    using d e unfolding s1
    by (simp add: upsert_predictions_def query_present_def candidates_def row_of_def dict_pop_def)
  with a d n s1 h1 h2 show ?thesis by simp
qed

text \<open>
  C8. When \<^verbatim>\<open>commit()\<close> raises the operational error, \<^verbatim>\<open>upsert_predictions\<close> returns
  to its caller without an error: the table is as before (the rows are not stored) and the
  rollback line is printed.
\<close>

theorem upsert_predictions_commit_error:
  assumes "distinct (map address (topography_results s))"
  shows "\<exists>d' s'. upsert_predictions True d s = Inr (d', s')
           \<and> topography_results s' = topography_results s
           \<and> stdout s' = stdout s @ [rollback_message]"
  by (simp add: upsert_predictions_result [OF assms])

text \<open>The same table and rows with a failing commit: the row for b is not stored.\<close>

theorem upsert_predictions_commit_error_witness:
  "distinct (map address (topography_results stored))
   \<and> upsert_predictions True candidates stored
       = Inr ([(''b'', row_of ''b'')],
              \<lparr>topography_results = [row_of ''a''], stdout = [rollback_message]\<rparr>)"
proof -
  have h: "distinct (map address (topography_results stored))"
    by (simp add: stored_def row_of_def)
  from upsert_predictions_commit_error [OF h, of candidates]
  obtain d' s' where a: "upsert_predictions True candidates stored = Inr (d', s')"
    and b: "topography_results s' = topography_results stored"
    and c: "stdout s' = stdout stored @ [rollback_message]"
    by blast
  have "d' = [(''b'', row_of ''b'')]"
    using a
    by (simp add: upsert_predictions_def query_present_def candidates_def dict_pop_def
          stored_def row_of_def)
  moreover have "s' = \<lparr>topography_results = [row_of ''a''], stdout = [rollback_message]\<rparr>"
    using b c by (cases s') (simp add: stored_def)
  ultimately show ?thesis using a h by simp
qed

text \<open>
  C10. \<^verbatim>\<open>upsert_predictions\<close> changes the caller's mapping: after the call it holds the
  rows whose address was not in the table, and these are the rows submitted for insertion.
\<close>

theorem upsert_predictions_mutates_mapping:
  assumes "distinct (map address (topography_results s))"
  shows "case upsert_predictions c d s of
           Inl e \<Rightarrow> False
         | Inr (d', s') \<Rightarrow>
             d' = filter (\<lambda>kv. fst kv \<notin> set (map address (topography_results s))) d
             \<and> topography_results s' =
                 (if c then topography_results s else topography_results s @ map snd d')"
  by (simp add: upsert_predictions_result [OF assms] new_rows_def)

text \<open>After the call the mapping with rows for a and b holds the row for b only.\<close>

theorem upsert_predictions_mutates_mapping_witness:
  "distinct (map address (topography_results stored))
   \<and> map_sum id fst (upsert_predictions False candidates stored) = Inr [(''b'', row_of ''b'')]
   \<and> candidates \<noteq> [(''b'', row_of ''b'')]"
proof -
  have h: "distinct (map address (topography_results stored))"
    by (simp add: stored_def row_of_def)
  have f: "filter (\<lambda>kv. fst kv \<notin> set (map address (topography_results stored))) candidates
           = [(''b'', row_of ''b'')]"
    by (simp add: stored_def candidates_def row_of_def)
  show ?thesis
    using upsert_predictions_mutates_mapping [OF h, where c = False and d = candidates] h
    unfolding f
    by (auto split: sum.splits simp: candidates_def)
qed

section \<open>Properties of the gateway inventory\<close>

lemma gateway_addresses:
  "map gw_address (gateway_locations f p tbl)
     = map inv_address (filter complete_row (read_gateway_inventory tbl))"
  by (simp add: gateway_locations_def dropna_def comp_def)

lemma sorted_rev_uminus: "sorted (map uminus xs) \<Longrightarrow> sorted (rev (xs :: int list))"
  by (induction xs) (auto simp: sorted_append)

text \<open>
  C2, as stated, fails: the frame is not reduced to one row per address. An inventory with two
  complete rows for the address a gives a frame with two rows for a.
\<close>

theorem gateway_locations_counterexample:
  "map gw_address (gateway_locations flat_geo same_cell inventory_twice) = [''a'', ''a'']"
  by (simp add: gateway_locations_def dropna_def complete_row_def read_gateway_inventory_def
        inventory_twice_def)

text \<open>
  C2, amended. The frame holds the complete rows of the inventory (location, gain and elevation
  present) in the order of descending last block, and nothing is de-duplicated: an address has
  as many rows in the frame as it has complete rows in the table. So the frame has at most one
  row for each address when the addresses of the table are distinct.
\<close>

theorem gateway_locations_no_dedup:
  shows "map gw_address (gateway_locations f p tbl)
           = map inv_address (filter complete_row (read_gateway_inventory tbl))
         \<and> sorted (rev (map last_block (read_gateway_inventory tbl)))
         \<and> length (filter (\<lambda>g. gw_address g = a) (gateway_locations f p tbl))
             = length (filter (\<lambda>r. inv_address r = a \<and> complete_row r) tbl)
         \<and> (distinct (map inv_address tbl) \<longrightarrow> distinct (map gw_address (gateway_locations f p tbl)))"
proof -
  have s: "sorted (rev (map last_block (read_gateway_inventory tbl)))"
  proof -
    have "sorted (map (\<lambda>r. - last_block r) (read_gateway_inventory tbl))"
      by (simp add: read_gateway_inventory_def)
    then have "sorted (map uminus (map last_block (read_gateway_inventory tbl)))"
      by (simp add: comp_def)
    then show ?thesis
      by (rule sorted_rev_uminus)
  qed
  have c: "length (filter (\<lambda>g. gw_address g = a) (gateway_locations f p tbl))
             = length (filter (\<lambda>r. inv_address r = a \<and> complete_row r) tbl)"
  proof -
    have "length (filter (\<lambda>g. gw_address g = a) (gateway_locations f p tbl))
          = length (filter (\<lambda>x. x = a) (map gw_address (gateway_locations f p tbl)))"
      by (simp add: filter_map comp_def)
    also have "\<dots> = length (filter (\<lambda>r. inv_address r = a)
                          (filter complete_row (read_gateway_inventory tbl)))"
      unfolding gateway_addresses by (simp add: filter_map comp_def)
    also have "\<dots> = length (filter (\<lambda>r. inv_address r = a \<and> complete_row r) tbl)"
      by (simp add: read_gateway_inventory_def filter_sort conj_commute)
    finally show ?thesis .
  qed
  have d: "distinct (map gw_address (gateway_locations f p tbl))" if "distinct (map inv_address tbl)"
  proof -
    from that have "distinct tbl" and "inj_on inv_address (set tbl)"
      by (simp_all add: distinct_map)
    then have "distinct (map inv_address (read_gateway_inventory tbl))"
      by (simp add: distinct_map read_gateway_inventory_def)
    then show ?thesis
      unfolding gateway_addresses by (rule distinct_map_filter)
  qed
  from gateway_addresses s c d show ?thesis by blast
qed

text \<open>An inventory of distinct addresses: the row without location is dropped, the newest row comes first.\<close>

theorem gateway_locations_no_dedup_witness:
  "distinct (map inv_address inventory_once)
   \<and> map gw_address (gateway_locations flat_geo same_cell inventory_once) = [''c'', ''a'']
   \<and> distinct (map gw_address (gateway_locations flat_geo same_cell inventory_once))"
proof -
  have h: "distinct (map inv_address inventory_once)"
    by (simp add: inventory_once_def)
  have "map inv_address (filter complete_row (read_gateway_inventory inventory_once)) = [''c'', ''a'']"
    by (simp add: read_gateway_inventory_def inventory_once_def complete_row_def)
  with gateway_locations_no_dedup [of flat_geo same_cell inventory_once] h
  show ?thesis by simp
qed

section \<open>Properties of the terrain features and of the distance band\<close>

lemma map_topo_features_returns: "\<exists>f. map_topo_features T x ds = Inr f"
  by (simp add: map_topo_features_def split: sum.split)

lemma all_absent_nan_features: "all_absent nan_features"
  by (simp add: all_absent_def nan_features_def isnan_def)

lemma extract_all_present:
  "extract_topographic_features descr d_vec profile = Inr f \<Longrightarrow> all_present f"
  by (auto simp: extract_topographic_features_def all_present_def isnan_def
           split: sum.splits prod.splits)

lemma topo_pipeline_all_present: "topo_pipeline T x ds = Inr f \<Longrightarrow> all_present f"
  by (auto simp: topo_pipeline_def Let_def split: sum.splits dest: extract_all_present)

text \<open>
  C4. \<^verbatim>\<open>map_topo_features\<close> never raises, and what it returns has all nine descriptors or
  none: when any step of the sampling and profiling fails it returns the vector in which all
  nine are absent.
\<close>

theorem map_topo_features_all_or_nothing:
  "(\<exists>f. map_topo_features T x ds = Inr f \<and> (all_present f \<or> all_absent f))
   \<and> (\<forall>e. topo_pipeline T x ds = Inl e \<longrightarrow> map_topo_features T x ds = Inr nan_features)
   \<and> all_absent nan_features \<and> \<not> all_present nan_features"
proof -
  have a: "\<exists>f. map_topo_features T x ds = Inr f \<and> (all_present f \<or> all_absent f)"
  proof (cases "topo_pipeline T x ds")
    case (Inl e)
    then show ?thesis
      by (simp add: map_topo_features_def all_absent_nan_features)
  next
    case (Inr f)
    then show ?thesis
      by (simp add: map_topo_features_def topo_pipeline_all_present)
  qed
  have b: "\<forall>e. topo_pipeline T x ds = Inl e \<longrightarrow> map_topo_features T x ds = Inr nan_features"
    by (simp add: map_topo_features_def)
  have c: "\<not> all_present nan_features"
    by (simp add: all_present_def nan_features_def isnan_def)
  from a b c all_absent_nan_features show ?thesis by blast
qed

lemma arange_60: "np_arange (3 / 50) (3 / 10) = [0]"
proof -
  have "\<lceil>1 / 5 :: real\<rceil> = 1"
    by (rule ceiling_unique) simp_all
  then show ?thesis
    by (simp add: np_arange_def)
qed

text \<open>
  An edge of 60 m has one sample point. Off the raster the sampling raises and the result is
  the vector of NaNs; on the flat raster all nine descriptors are there.
\<close>

theorem map_topo_features_all_or_nothing_witness:
  "topo_pipeline no_terrain (edge_of 60) () = Inl IndexError
   \<and> map_topo_features no_terrain (edge_of 60) () = Inr nan_features
   \<and> map_topo_features flat_terrain (edge_of 60) ()
       = Inr \<lparr>ra = Fl 0, rq = Fl 0, rp = Fl 0, rv = Fl 0, rz = Fl 0, rsk = Fl 0, rku = Fl 0,
              deepest_barrier = Fl 0, n_barriers = Fl 0\<rparr>"
proof -
  have p: "topo_pipeline no_terrain (edge_of 60) () = Inl IndexError"
    by (simp add: topo_pipeline_def edge_of_def arange_60 no_terrain_def off_raster_def)
  have q: "map_topo_features flat_terrain (edge_of 60) ()
       = Inr \<lparr>ra = Fl 0, rq = Fl 0, rp = Fl 0, rv = Fl 0, rz = Fl 0, rsk = Fl 0, rku = Fl 0,
              deepest_barrier = Fl 0, n_barriers = Fl 0\<rparr>"
    by (simp add: map_topo_features_def topo_pipeline_def edge_of_def arange_60 flat_terrain_def
          sea_level_def keep_profile_def zero_descriptors_def extract_topographic_features_def)
  from map_topo_features_all_or_nothing [of no_terrain "edge_of 60" "()"] p q
  show ?thesis by simp
qed

lemma edge_loop_sampled:
  "\<exists>pf pd. edge_loop T ds es (pf0, pd0, sm0)
     = Inr (pf, pd, sm0 @ filter (\<lambda>x. 50 \<le> distance_m x \<and> distance_m x \<le> 50000) es)"
proof (induction es arbitrary: pf0 pd0 sm0)
  case Nil
  then show ?case by simp
next
  case (Cons x es)
  obtain f where f: "map_topo_features T x ds = Inr f"
    using map_topo_features_returns [of T x ds] by (elim exE)
  show ?case
  proof (cases "distance_m x > 50000 \<or> distance_m x < 50")
    case True
    with Cons.IH [of pf0 pd0 sm0] show ?thesis by auto
  next
    case False
    then have k: "50 \<le> distance_m x \<and> distance_m x \<le> 50000" by auto
    show ?thesis
    proof (cases "isnan (ra f)")
      case True
      with False f k Cons.IH [of pf0 pd0 "sm0 @ [x]"] show ?thesis by auto
    next
      case n: False
      from Cons.IH [of _ _ "sm0 @ [x]"] False f k n show ?thesis by auto
    qed
  qed
qed

text \<open>
  C6. The edges that reach \<^verbatim>\<open>map_topo_features\<close> are the ones whose distance is strictly
  between 50 and 50000 metres, in their order.
\<close>

theorem distance_band_sampled:
  "\<exists>pf pd. extract_path_features T ds es
     = Inr (pf, pd, filter (\<lambda>x. 50 < distance_m x \<and> distance_m x < 50000) es)"
proof -
  have "filter (\<lambda>x. 50 \<le> distance_m x \<and> distance_m x \<le> 50000) (distance_band es)
        = filter (\<lambda>x. 50 < distance_m x \<and> distance_m x < 50000) es"
    unfolding distance_band_def filter_filter by (rule filter_cong) auto
  with edge_loop_sampled [of T ds "distance_band es" "[]" "[]" "[]"] show ?thesis
    by (simp add: extract_path_features_def)
qed

text \<open>Of the edges at 10, 60, 25000 and 60000 metres, the ones at 60 and 25000 are sampled.\<close>

theorem distance_band_sampled_witness:
  "\<exists>pf pd. extract_path_features flat_terrain () [edge_of 10, edge_of 60, edge_of 25000, edge_of 60000]
     = Inr (pf, pd, [edge_of 60, edge_of 25000])"
proof -
  have "filter (\<lambda>x. 50 < distance_m x \<and> distance_m x < 50000)
          [edge_of 10, edge_of 60, edge_of 25000, edge_of 60000] = [edge_of 60, edge_of 25000]"
    by (simp add: edge_of_def)
  with distance_band_sampled [of flat_terrain "()" "[edge_of 10, edge_of 60, edge_of 25000, edge_of 60000]"]
  show ?thesis by simp
qed

section \<open>Properties of the sampling loop\<close>

lemma sample_body_close:
  assumes "take 3 perm = [idx1, idx2, idx3]" and "idx1 < length wc" and "idx2 < length wc"
    and "haversine S (wc ! idx1) (wc ! idx2) \<le> 5 / 100"
  shows "sample_body S wc em a perm i pls = Inr (i, pls)"
  using assms by (simp add: sample_body_def)

lemma sample_body_radius:
  assumes "take 3 perm = [idx1, idx2, idx3]" and "idx1 < length wc" and "idx2 < length wc"
    and "\<not> haversine S (wc ! idx1) (wc ! idx2) \<le> 5 / 100"
    and "idx1 < length em" and "idx2 < length em"
    and "em ! idx1 > 50 \<or> em ! idx2 > 50"
  shows "sample_body S wc em a perm i pls = Inr (i - 1, pls)"
  using assms by (simp add: sample_body_def)

lemma sample_body_no_intersection:
  assumes "take 3 perm = [idx1, idx2, idx3]" and "idx1 < length wc" and "idx2 < length wc"
    and "\<not> haversine S (wc ! idx1) (wc ! idx2) \<le> 5 / 100"
    and "idx1 < length em" and "idx2 < length em"
    and "\<not> em ! idx1 > 50" and "\<not> em ! idx2 > 50"
    and "(em ! idx1) ^ 2
           - (((em ! idx1) ^ 2 - (em ! idx2) ^ 2 + (haversine S (wc ! idx1) (wc ! idx2)) ^ 2)
               / (2 * haversine S (wc ! idx1) (wc ! idx2))) ^ 2 < 0"
  shows "sample_body S wc em a perm i pls = Inr (i, pls)"
  using assms by (simp add: sample_body_def Let_def)

lemma sample_loop_step:
  assumes "permutation S g (length wc) = (perm, g')"
    and "sample_body S wc em a perm (int k) pls = Inr (i, pls')"
  shows "sample_loop S wc em a (k # ks) g pls = sample_loop S wc em a ks g' pls'"
  using assms by simp

text \<open>
  C1, amended. A draw whose two places are at most 0.05 km apart, or one of whose two radii
  exceeds 50 km, adds nothing to \<^verbatim>\<open>predicted_locations\<close>. The draw of a close pair uses
  up its round of the \<^verbatim>\<open>N\<close> rounds: the loop goes on with the rest of the range.
\<close>

theorem close_pair_consumes_attempt:
  assumes "permutation S g (length wc) = (perm, g')"
    and "take 3 perm = [idx1, idx2, idx3]" and "idx1 < length wc" and "idx2 < length wc"
  shows "(haversine S (wc ! idx1) (wc ! idx2) \<le> 5 / 100 \<longrightarrow>
            sample_body S wc em a perm (int k) pls = Inr (int k, pls)
            \<and> sample_loop S wc em a (k # ks) g pls = sample_loop S wc em a ks g' pls)
       \<and> (\<not> haversine S (wc ! idx1) (wc ! idx2) \<le> 5 / 100
            \<and> idx1 < length em \<and> idx2 < length em \<and> (em ! idx1 > 50 \<or> em ! idx2 > 50) \<longrightarrow>
            (\<exists>i. sample_body S wc em a perm (int k) pls = Inr (i, pls)))"
proof (intro conjI impI)
  assume u: "haversine S (wc ! idx1) (wc ! idx2) \<le> 5 / 100"
  show b: "sample_body S wc em a perm (int k) pls = Inr (int k, pls)"
    by (rule sample_body_close [OF assms(2-4) u])
  show "sample_loop S wc em a (k # ks) g pls = sample_loop S wc em a ks g' pls"
    by (rule sample_loop_step [OF assms(1) b])
next
  assume "\<not> haversine S (wc ! idx1) (wc ! idx2) \<le> 5 / 100
            \<and> idx1 < length em \<and> idx2 < length em \<and> (em ! idx1 > 50 \<or> em ! idx2 > 50)"
  then show "\<exists>i. sample_body S wc em a perm (int k) pls = Inr (i, pls)"
    using sample_body_radius [OF assms(2-4)] by blast
qed

text \<open>
  C7. A draw that passes both tests and whose radicand \<open>r1\<^sup>2 - x'\<^sup>2\<close> is negative adds
  nothing to \<^verbatim>\<open>predicted_locations\<close> and is not retried: the loop goes on with the rest
  of the range, so the round is used up.
\<close>

theorem no_intersection_consumes_attempt:
  assumes "permutation S g (length wc) = (perm, g')"
    and "take 3 perm = [idx1, idx2, idx3]" and "idx1 < length wc" and "idx2 < length wc"
    and "\<not> haversine S (wc ! idx1) (wc ! idx2) \<le> 5 / 100"
    and "idx1 < length em" and "idx2 < length em"
    and "\<not> em ! idx1 > 50" and "\<not> em ! idx2 > 50"
    and "(em ! idx1) ^ 2
           - (((em ! idx1) ^ 2 - (em ! idx2) ^ 2 + (haversine S (wc ! idx1) (wc ! idx2)) ^ 2)
               / (2 * haversine S (wc ! idx1) (wc ! idx2))) ^ 2 < 0"
  shows "sample_body S wc em a perm (int k) pls = Inr (int k, pls)
       \<and> sample_loop S wc em a (k # ks) g pls = sample_loop S wc em a ks g' pls"
proof -
  have b: "sample_body S wc em a perm (int k) pls = Inr (int k, pls)"
    by (rule sample_body_no_intersection [OF assms(2-10)])
  with sample_loop_step [OF assms(1) b] show ?thesis by simp
qed

lemma len3: "length two_near_one_far = 3"
  by (simp add: two_near_one_far_def)

lemma turn_first: "turn 0 3 = ([0, 1, 2], Suc 0)"
  by (simp add: turn_def)

lemma turn_later: "turn (Suc g) 3 = ([0, 2, 1], Suc (Suc g))"
  by (simp add: turn_def)

lemma far_pair_body:
  "sample_body flat_sampling two_near_one_far [1, 1, 1] (0, 0) [0, 2, 1] i pls = Inr (i, pls @ [(1, 0)])"
  by (simp add: sample_body_def two_near_one_far_def flat_sampling_def plane_haversine_def
        plane_project_def plane_bearing_def power2_eq_square Let_def)

lemma far_pair_run:
  "sample_loop flat_sampling two_near_one_far [1, 1, 1] (0, 0) ks (Suc g) pls
     = Inr (Suc g + length ks, pls @ replicate (length ks) (1, 0))"
proof (induction ks arbitrary: g pls)
  case Nil
  then show ?case by simp
next
  case (Cons k ks)
  have p: "permutation flat_sampling (Suc g) (length two_near_one_far) = ([0, 2, 1], Suc (Suc g))"
    by (simp add: flat_sampling_def len3 turn_later)
  have "sample_loop flat_sampling two_near_one_far [1, 1, 1] (0, 0) (k # ks) (Suc g) pls
        = sample_loop flat_sampling two_near_one_far [1, 1, 1] (0, 0) ks (Suc (Suc g)) (pls @ [(1, 0)])"
    by (rule sample_loop_step [OF p far_pair_body])
  also have "\<dots> = Inr (Suc (Suc g) + length ks, (pls @ [(1, 0)]) @ replicate (length ks) (1, 0))"
    by (rule Cons.IH)
  finally show ?case by simp
qed

lemma near_pair_body:
  "sample_body flat_sampling two_near_one_far em a [0, 1, 2] i pls = Inr (i, pls)"
  by (simp add: sample_body_def two_near_one_far_def flat_sampling_def plane_haversine_def)

lemma range_N: "[0..<N] = 0 # [1..<N]"
proof -
  have "0 < N" by (simp add: N_def)
  from upt_conv_Cons [OF this] show ?thesis by simp
qed

lemma length_rest_N: "length [1..<N] = 999"
  by (simp add: N_def)

text \<open>
  C1, as stated, fails. The first of the 1000 draws is a close pair and every later draw gives
  a location: the loop ends after 1000 draws with 999 locations, so the discarded draw was
  one of the \<^verbatim>\<open>N\<close> rounds and was not drawn again.
\<close>

theorem close_pair_counterexample:
  "permutation flat_sampling 0 (length two_near_one_far) = ([0, 1, 2], 1)
   \<and> haversine flat_sampling (two_near_one_far ! 0) (two_near_one_far ! 1) \<le> 5 / 100
   \<and> sample_loop flat_sampling two_near_one_far [1, 1, 1] (0, 0) [0..<N] 0 []
       = Inr (1000, replicate 999 (1, 0))"
proof -
  have p: "permutation flat_sampling 0 (length two_near_one_far) = ([0, 1, 2], Suc 0)"
    by (simp add: flat_sampling_def len3 turn_first)
  have u: "haversine flat_sampling (two_near_one_far ! 0) (two_near_one_far ! 1) \<le> 5 / 100"
    by (simp add: flat_sampling_def two_near_one_far_def plane_haversine_def)
  have "sample_loop flat_sampling two_near_one_far [1, 1, 1] (0, 0) (0 # [1..<N]) 0 []
        = sample_loop flat_sampling two_near_one_far [1, 1, 1] (0, 0) [1..<N] (Suc 0) []"
    by (rule sample_loop_step [OF p near_pair_body])
  also have "\<dots> = Inr (Suc 0 + length [1..<N], [] @ replicate (length [1..<N]) (1, 0))"
    by (rule far_pair_run)
  also have "\<dots> = Inr (1000, replicate 999 (1, 0))"
    unfolding length_rest_N by simp
  finally have "sample_loop flat_sampling two_near_one_far [1, 1, 1] (0, 0) [0..<N] 0 []
        = Inr (1000, replicate 999 (1, 0))"
    by (simp only: range_N)
  with p u show ?thesis
    by simp
qed

text \<open>A close pair in a loop of one round, and a radius of 60 km in the body.\<close>

theorem close_pair_consumes_attempt_witness:
  "permutation flat_sampling 0 (length two_near_one_far) = ([0, 1, 2], 1)
   \<and> haversine flat_sampling (two_near_one_far ! 0) (two_near_one_far ! 1) \<le> 5 / 100
   \<and> sample_loop flat_sampling two_near_one_far [1, 1, 1] (0, 0) [4] 0 [] = Inr (1, [])
   \<and> permutation flat_sampling 1 (length two_near_one_far) = ([0, 2, 1], 2)
   \<and> \<not> haversine flat_sampling (two_near_one_far ! 0) (two_near_one_far ! 2) \<le> 5 / 100
   \<and> [60, 1, 1] ! 0 > (50 :: real)
   \<and> (\<exists>i. sample_body flat_sampling two_near_one_far [60, 1, 1] (0, 0) [0, 2, 1] 4 [(1, 0)]
            = Inr (i, [(1, 0)]))"
proof -
  have p0: "permutation flat_sampling 0 (length two_near_one_far) = ([0, 1, 2], 1)"
    by (simp add: flat_sampling_def len3 turn_first)
  have p1: "permutation flat_sampling 1 (length two_near_one_far) = ([0, 2, 1], 2)"
    using turn_later [of 0] by (simp add: flat_sampling_def len3)
  have t0: "take 3 [0, 1, 2 :: nat] = [0, 1, 2]" and t1: "take 3 [0, 2, 1 :: nat] = [0, 2, 1]"
    by simp_all
  have l: "0 < length two_near_one_far" "1 < length two_near_one_far" "2 < length two_near_one_far"
    by (simp_all add: two_near_one_far_def)
  have u0: "haversine flat_sampling (two_near_one_far ! 0) (two_near_one_far ! 1) \<le> 5 / 100"
    by (simp add: flat_sampling_def two_near_one_far_def plane_haversine_def)
  have u1: "\<not> haversine flat_sampling (two_near_one_far ! 0) (two_near_one_far ! 2) \<le> 5 / 100"
    by (simp add: flat_sampling_def two_near_one_far_def plane_haversine_def)
  have a: "sample_loop flat_sampling two_near_one_far [1, 1, 1] (0, 0) [4] 0 [] = Inr (1, [])"
    using close_pair_consumes_attempt [OF p0 t0 l(1) l(2), of "[1, 1, 1]" "(0, 0)" 4 "[]" "[]"] u0
    by simp
  have b: "\<exists>i. sample_body flat_sampling two_near_one_far [60, 1, 1] (0, 0) [0, 2, 1] 4 [(1, 0)]
            = Inr (i, [(1, 0)])"
    using close_pair_consumes_attempt [OF p1 t1 l(1) l(3), of "[60, 1, 1]" "(0, 0)" 4 "[(1, 0)]" "[]"] u1
    by simp
  from p0 p1 u0 u1 a b show ?thesis by simp
qed

text \<open>Radii 1 and 3 at distance 1: the circles do not meet, the round gives no location.\<close>

theorem no_intersection_consumes_attempt_witness:
  "permutation flat_sampling 1 (length two_near_one_far) = ([0, 2, 1], 2)
   \<and> \<not> haversine flat_sampling (two_near_one_far ! 0) (two_near_one_far ! 2) \<le> 5 / 100
   \<and> \<not> [1, 1, 3] ! 0 > (50 :: real) \<and> \<not> [1, 1, 3] ! 2 > (50 :: real)
   \<and> sample_loop flat_sampling two_near_one_far [1, 1, 3] (0, 0) [7] 1 [] = Inr (2, [])"
proof -
  have p1: "permutation flat_sampling 1 (length two_near_one_far) = ([0, 2, 1], 2)"
    using turn_later [of 0] by (simp add: flat_sampling_def len3)
  have t1: "take 3 [0, 2, 1 :: nat] = [0, 2, 1]"
    by simp
  have l: "0 < length two_near_one_far" "2 < length two_near_one_far"
    by (simp_all add: two_near_one_far_def)
  have h: "haversine flat_sampling (two_near_one_far ! 0) (two_near_one_far ! 2) = 1"
    by (simp add: flat_sampling_def two_near_one_far_def plane_haversine_def)
  have u1: "\<not> haversine flat_sampling (two_near_one_far ! 0) (two_near_one_far ! 2) \<le> 5 / 100"
    by (simp add: h)
  have e: "0 < length [1, 1, 3 :: real]" "2 < length [1, 1, 3 :: real]"
    "\<not> [1, 1, 3] ! 0 > (50 :: real)" "\<not> [1, 1, 3] ! 2 > (50 :: real)"
    by simp_all
  have r: "([1, 1, 3] ! 0) ^ 2
           - ((([1, 1, 3] ! 0) ^ 2 - ([1, 1, 3] ! 2) ^ 2
                + (haversine flat_sampling (two_near_one_far ! 0) (two_near_one_far ! 2)) ^ 2)
               / (2 * haversine flat_sampling (two_near_one_far ! 0) (two_near_one_far ! 2))) ^ 2
           < (0 :: real)"
    unfolding h by (simp add: power2_eq_square)
  from no_intersection_consumes_attempt [OF p1 t1 l u1 e r, of "(0, 0)" 7 "[]" "[]"] p1 u1 e
  show ?thesis by simp
qed

section \<open>Properties of \<^verbatim>\<open>generate_stats\<close>\<close>

lemma digit_cases: "d < 10 \<Longrightarrow> d \<in> {0, 1, 2, 3, 4, 5, 6, 7, 8, 9 :: nat}"
  by auto

lemma digit_char_value: "d < 10 \<Longrightarrow> digit_value (digit_char d) = Some d"
  using digit_cases [of d] by (auto simp: digit_char_def digit_value_def)

lemma digit_char_not_point: "d < 10 \<Longrightarrow> digit_char d \<noteq> CHR ''.''"
  using digit_cases [of d] by (auto simp: digit_char_def)

lemma digits_value_append:
  "digits_value (xs @ ys) acc =
     (case digits_value xs acc of None \<Rightarrow> None | Some a \<Rightarrow> digits_value ys a)"
  by (induction xs arbitrary: acc) (auto split: option.splits)

lemma digits_value_str_nat: "digits_value (str_nat n) 0 = Some n"
proof (induction n rule: str_nat.induct)
  case (1 n)
  show ?case
  proof (cases "n < 10")
    case True
    then show ?thesis
      by (simp add: str_nat.simps [of n] digit_char_value)
  next
    case False
    with "1" have "digits_value (str_nat (n div 10)) 0 = Some (n div 10)"
      by simp
    with False show ?thesis
      by (simp add: str_nat.simps [of n] digits_value_append digit_char_value)
  qed
qed

lemma str_nat_no_point: "CHR ''.'' \<notin> set (str_nat n)"
proof (induction n rule: str_nat.induct)
  case (1 n)
  show ?case
  proof (cases "n < 10")
    case True
    then show ?thesis
      using digit_char_not_point [of n] by (auto simp: str_nat.simps [of n])
  next
    case False
    with "1" have "CHR ''.'' \<notin> set (str_nat (n div 10))"
      by simp
    with False show ?thesis
      using digit_char_not_point [of "n mod 10"] by (auto simp: str_nat.simps [of n])
  qed
qed

lemma takeWhile_until: "c \<notin> set xs \<Longrightarrow> takeWhile (\<lambda>x. x \<noteq> c) (xs @ c # ys) = xs"
  by (induction xs) auto

lemma str_nat_not_empty: "str_nat n \<noteq> []"
  by (simp add: str_nat.simps [of n])

lemma text_value_decimal:
  assumes "b < 10"
  shows "text_value (str_nat a @ ''.'' @ str_nat b) = Some (real a + real b / 10)"
proof -
  have w: "takeWhile (\<lambda>c. c \<noteq> CHR ''.'') (str_nat a @ ''.'' @ str_nat b) = str_nat a"
    using str_nat_no_point [of a] by (simp add: takeWhile_until)
  have l: "length (str_nat b) = 1"
    using assms by (simp add: str_nat.simps [of b])
  show ?thesis
    unfolding text_value_def w
    by (simp add: str_nat_not_empty digits_value_str_nat l)
qed

lemma rint_bounds:
  assumes "0 \<le> x" and "x \<le> 1000"
  shows "0 \<le> rint x" and "rint x \<le> 1000"
proof -
  have f0: "0 \<le> \<lfloor>x\<rfloor>" using assms(1) by simp
  have f1: "\<lfloor>x\<rfloor> \<le> 1000" using assms(2) by (simp add: floor_le_iff)
  show "0 \<le> rint x"
    using f0 by (simp add: rint_def Let_def)
  have a: "rint x \<le> \<lfloor>x\<rfloor> + 1"
    by (simp add: rint_def Let_def)
  show "rint x \<le> 1000"
  proof (cases "\<lfloor>x\<rfloor> = 1000")
    case True
    then have "x - of_int \<lfloor>x\<rfloor> < 1 / 2" using assms(2) by simp
    then have "rint x = \<lfloor>x\<rfloor>" by (simp only: rint_def Let_def if_True)
    with True show ?thesis by simp
  next
    case False
    with f1 have "\<lfloor>x\<rfloor> \<le> 999" by linarith
    with a show ?thesis by linarith
  qed
qed

lemma text_value_zero: "text_value ''0'' = Some 0"
  by (simp add: text_value_def digit_value_def)

lemma percent_text_none: "percent_text pts 0 = ''0''"
  by (simp add: percent_text_def py_truediv_def)

lemma address_stats_of: "address (stats_of S d g_row h pls) = h"
  by (simp add: stats_of_def Let_def)

lemma hotspot_stats_skip:
  "hotspot_stats S d gw em h g = Inr (g', None)
    \<Longrightarrow> length (filter (\<lambda>x. witness_address x = h) d) < 3"
  by (auto simp: hotspot_stats_def Let_def split: if_splits sum.splits prod.splits)

lemma hotspot_stats_row:
  "hotspot_stats S d gw em h g = Inr (g', Some r)
    \<Longrightarrow> 3 \<le> length (filter (\<lambda>x. witness_address x = h) d)
        \<and> (\<exists>g_row pls. r = stats_of S d g_row h pls)"
  by (auto simp: hotspot_stats_def Let_def split: if_splits sum.splits prod.splits)

lemma hotspot_loop_rows:
  "hotspot_loop S d gw em hs g rs = Inr (g', rs')
    \<Longrightarrow> map address rs'
          = map address rs @ filter (\<lambda>h. 3 \<le> length (filter (\<lambda>x. witness_address x = h) d)) hs
        \<and> (\<forall>r\<in>set rs'. r \<in> set rs \<or> (\<exists>g_row h pls. r = stats_of S d g_row h pls))"
proof (induction hs arbitrary: g rs)
  case Nil
  then show ?case by simp
next
  case (Cons h hs)
  from Cons.prems obtain g1 o1 where s: "hotspot_stats S d gw em h g = Inr (g1, o1)"
    by (auto split: sum.splits)
  show ?case
  proof (cases o1)
    case None
    with s Cons.prems have "hotspot_loop S d gw em hs g1 rs = Inr (g', rs')"
      by simp
    from Cons.IH [OF this] hotspot_stats_skip [OF s [unfolded None]] show ?thesis
      by simp
  next
    case (Some r)
    with s Cons.prems have "hotspot_loop S d gw em hs g1 (rs @ [r]) = Inr (g', rs')"
      by simp
    from Cons.IH [OF this] hotspot_stats_row [OF s [unfolded Some]] show ?thesis
      by (auto simp: address_stats_of)
  qed
qed

lemma generate_stats_rows:
  assumes "generate_stats S d gw em ch g = Inr (g', rows)"
  shows "map fst rows
           = filter (\<lambda>h. 3 \<le> length (filter (\<lambda>x. witness_address x = h) d))
               (remdups (map witness_address d))"
    and "\<forall>kr\<in>set rows. \<exists>g_row h pls.
           percent_predictions_within_5_res8_krings (snd kr)
             = percent_predictions_within_5_res8_krings (stats_of S d g_row h pls)"
proof -
  from assms obtain rs where l: "hotspot_loop S d gw em (remdups (map witness_address d)) g [] = Inr (g', rs)"
    and r: "rows = map (\<lambda>r. (address r,
                                 \<lparr>address = address r,
                                  percent_predictions_within_5_res8_krings =
                                    percent_predictions_within_5_res8_krings r,
                                  prediction_error_km = prediction_error_km r,
                                  n_outliers = n_outliers r,
                                  n_beaconers_heard = n_beaconers_heard r,
                                  block = ch\<rparr>)) rs"
    by (auto simp: generate_stats_def split: sum.splits if_splits)
  from hotspot_loop_rows [OF l]
  have a: "map address rs = filter (\<lambda>h. 3 \<le> length (filter (\<lambda>x. witness_address x = h) d))
                             (remdups (map witness_address d))"
    and b: "\<forall>r\<in>set rs. \<exists>g_row h pls. r = stats_of S d g_row h pls"
    by simp_all
  show "map fst rows
           = filter (\<lambda>h. 3 \<le> length (filter (\<lambda>x. witness_address x = h) d))
               (remdups (map witness_address d))"
    unfolding a [symmetric] r by (simp add: comp_def)
  show "\<forall>kr\<in>set rows. \<exists>g_row h pls.
           percent_predictions_within_5_res8_krings (snd kr)
             = percent_predictions_within_5_res8_krings (stats_of S d g_row h pls)"
    unfolding r using b by fastforce
qed

text \<open>
  C5. In what \<^verbatim>\<open>generate_stats\<close> returns, a witness address has a row exactly when at
  least three transmitter coordinates are recorded for it: with two it is skipped, with three
  it is included.
\<close>

theorem three_coordinates_needed:
  assumes "generate_stats S d gw em ch g = Inr (g', rows)"
  shows "(a \<in> set (map fst rows)) = (3 \<le> length (filter (\<lambda>x. witness_address x = a) d))"
proof -
  have "a \<in> set (map witness_address d)" if "3 \<le> length (filter (\<lambda>x. witness_address x = a) d)"
  proof -
    from that have "filter (\<lambda>x. witness_address x = a) d \<noteq> []" by auto
    then obtain x where "x \<in> set d" and "witness_address x = a"
      by (auto simp: filter_empty_conv)
    then show ?thesis by force
  qed
  then show ?thesis
    unfolding generate_stats_rows(1) [OF assms] by auto
qed

lemma rint_near: "\<bar>of_int (rint x) - x\<bar> \<le> 1 / 2"
proof -
  have "0 \<le> x - of_int \<lfloor>x\<rfloor>" and "x - of_int \<lfloor>x\<rfloor> < 1"
    by linarith+
  then show ?thesis
    by (auto simp: rint_def Let_def)
qed

lemma str_round1_tenths:
  assumes "0 \<le> q" and "q \<le> 100"
  shows "\<exists>k::nat. text_value (str_round1 q) = Some (real k / 10) \<and> k \<le> 1000
           \<and> \<bar>real k / 10 - q\<bar> \<le> 1 / 20"
proof -
  define t where "t = nat (rint (q * 10))"
  have r: "0 \<le> rint (q * 10)" "rint (q * 10) \<le> 1000"
    using rint_bounds [of "q * 10"] assms by simp_all
  then have t: "t \<le> 1000" by (simp add: t_def)
  have rt: "real t = of_int (rint (q * 10))"
    using r(1) by (simp add: t_def)
  have m: "t mod 10 < 10" by simp
  have v: "text_value (str_round1 q) = Some (real (t div 10) + real (t mod 10) / 10)"
    unfolding str_round1_def Let_def t_def [symmetric] by (rule text_value_decimal [OF m])
  have "10 * (t div 10) + t mod 10 = t" by simp
  then have "10 * real (t div 10) + real (t mod 10) = real t"
    by (metis of_nat_add of_nat_mult of_nat_numeral)
  then have e: "real (t div 10) + real (t mod 10) / 10 = real t / 10"
    by linarith
  have "\<bar>real t - q * 10\<bar> \<le> 1 / 2"
    unfolding rt by (rule rint_near)
  then have n: "\<bar>real t / 10 - q\<bar> \<le> 1 / 20"
    by linarith
  have "text_value (str_round1 q) = Some (real t / 10)"
    using v e by simp
  with t n show ?thesis by blast
qed

lemma percent_text_tenths:
  assumes "pts \<le> n" and "0 < n"
  shows "\<exists>k::nat. text_value (percent_text pts n) = Some (real k / 10) \<and> k \<le> 1000
           \<and> \<bar>real k / 10 - 100 * real pts / real n\<bar> \<le> 1 / 20"
proof -
  have "0 \<le> real (100 * pts) / real n" and "real (100 * pts) / real n \<le> 100"
    using assms by (simp_all add: divide_le_eq)
  from str_round1_tenths [OF this] assms(2) show ?thesis
    by (simp add: percent_text_def py_truediv_def)
qed

lemma percent_of_stats:
  "percent_predictions_within_5_res8_krings (stats_of S d g_row h pls)
     = percent_text
         (length (filter (\<lambda>c. geo_to_h3 S (fst c) (snd c) 8
                                \<in> set (k_ring S (asserted_hex_res8 g_row) 5)) pls))
         (length pls)"
  by (simp add: stats_of_def Let_def)

lemma percent_of_stats_value:
  "\<exists>v. text_value (percent_predictions_within_5_res8_krings (stats_of S d g_row h pls)) = Some v
       \<and> 0 \<le> v \<and> v \<le> 100
       \<and> (pls = [] \<longrightarrow>
            percent_predictions_within_5_res8_krings (stats_of S d g_row h pls) = ''0'')
       \<and> (pls \<noteq> [] \<longrightarrow>
            (\<exists>k::nat. v = real k / 10)
            \<and> \<bar>v - 100 * real (length (filter (\<lambda>c. geo_to_h3 S (fst c) (snd c) 8
                                           \<in> set (k_ring S (asserted_hex_res8 g_row) 5)) pls))
                     / real (length pls)\<bar> \<le> 1 / 20)"
proof (cases "pls = []")
  case True
  then show ?thesis
    by (simp add: percent_of_stats percent_text_none text_value_zero)
next
  case False
  let ?pts = "length (filter (\<lambda>c. geo_to_h3 S (fst c) (snd c) 8
                                \<in> set (k_ring S (asserted_hex_res8 g_row) 5)) pls)"
  have "?pts \<le> length pls" by simp
  moreover have "0 < length pls" using False by simp
  ultimately obtain k :: nat where
    k: "text_value (percent_text ?pts (length pls)) = Some (real k / 10)" "k \<le> 1000"
       "\<bar>real k / 10 - 100 * real ?pts / real (length pls)\<bar> \<le> 1 / 20"
    using percent_text_tenths by blast
  have "0 \<le> real k / 10" and "real k / 10 \<le> 100"
    using k(2) by simp_all
  with k False show ?thesis
    unfolding percent_of_stats by blast
qed

lemma hotspot_stats_source:
  "hotspot_stats S d gw em h g = Inr (g', Some r)
    \<Longrightarrow> \<exists>g_row pls. loc gw h = Inr g_row
          \<and> sample_loop S (map transmitter_coords (filter (\<lambda>x. witness_address x = h) d)) em
               (asserted_location g_row) [0..<N] g [] = Inr (g', pls)
          \<and> r = stats_of S d g_row h pls"
  by (auto simp: hotspot_stats_def Let_def split: if_splits sum.splits prod.splits)

lemma hotspot_loop_source:
  "hotspot_loop S d gw em hs g rs = Inr (g', rs')
    \<Longrightarrow> \<forall>r\<in>set rs'. r \<in> set rs
          \<or> (\<exists>g_row g0 g1 pls. loc gw (address r) = Inr g_row
                \<and> sample_loop S
                     (map transmitter_coords (filter (\<lambda>x. witness_address x = address r) d)) em
                     (asserted_location g_row) [0..<N] g0 [] = Inr (g1, pls)
                \<and> r = stats_of S d g_row (address r) pls)"
proof (induction hs arbitrary: g rs)
  case Nil
  then show ?case by simp
next
  case (Cons h hs)
  from Cons.prems obtain g1 o1 where s: "hotspot_stats S d gw em h g = Inr (g1, o1)"
    by (auto split: sum.splits)
  show ?case
  proof (cases o1)
    case None
    with s Cons.prems have "hotspot_loop S d gw em hs g1 rs = Inr (g', rs')"
      by simp
    from Cons.IH [OF this] show ?thesis .
  next
    case (Some r)
    with s Cons.prems have l: "hotspot_loop S d gw em hs g1 (rs @ [r]) = Inr (g', rs')"
      by simp
    from hotspot_stats_source [OF s [unfolded Some]] obtain g_row pls where
      "loc gw h = Inr g_row"
      "sample_loop S (map transmitter_coords (filter (\<lambda>x. witness_address x = h) d)) em
         (asserted_location g_row) [0..<N] g [] = Inr (g1, pls)"
      "r = stats_of S d g_row h pls"
      by blast
    then have "\<exists>g_row g0 g1 pls. loc gw (address r) = Inr g_row
                \<and> sample_loop S
                     (map transmitter_coords (filter (\<lambda>x. witness_address x = address r) d)) em
                     (asserted_location g_row) [0..<N] g0 [] = Inr (g1, pls)
                \<and> r = stats_of S d g_row (address r) pls"
      by (auto simp: address_stats_of)
    with Cons.IH [OF l] show ?thesis
      by auto
  qed
qed

lemma generate_stats_source:
  assumes "generate_stats S d gw em ch g = Inr (g', rows)" and "kr \<in> set rows"
  shows "\<exists>g_row g0 g1 pls. loc gw (fst kr) = Inr g_row
           \<and> sample_loop S
                (map transmitter_coords (filter (\<lambda>x. witness_address x = fst kr) d)) em
                (asserted_location g_row) [0..<N] g0 [] = Inr (g1, pls)
           \<and> percent_predictions_within_5_res8_krings (snd kr)
               = percent_predictions_within_5_res8_krings (stats_of S d g_row (fst kr) pls)"
proof -
  from assms(1) obtain rs where
    l: "hotspot_loop S d gw em (remdups (map witness_address d)) g [] = Inr (g', rs)"
    and r: "rows = map (\<lambda>r. (address r,
                                 \<lparr>address = address r,
                                  percent_predictions_within_5_res8_krings =
                                    percent_predictions_within_5_res8_krings r,
                                  prediction_error_km = prediction_error_km r,
                                  n_outliers = n_outliers r,
                                  n_beaconers_heard = n_beaconers_heard r,
                                  block = ch\<rparr>)) rs"
    by (auto simp: generate_stats_def split: sum.splits if_splits)
  from assms(2) r obtain r0 where r0: "r0 \<in> set rs" and f: "fst kr = address r0"
    and p: "percent_predictions_within_5_res8_krings (snd kr)
              = percent_predictions_within_5_res8_krings r0"
    by auto
  from hotspot_loop_source [OF l] r0 obtain g_row g0 g1 pls where
    "loc gw (address r0) = Inr g_row"
    "sample_loop S (map transmitter_coords (filter (\<lambda>x. witness_address x = address r0) d)) em
       (asserted_location g_row) [0..<N] g0 [] = Inr (g1, pls)"
    "r0 = stats_of S d g_row (address r0) pls"
    by auto
  with f p show ?thesis
    by metis
qed

lemma percent_text_examples:
  "percent_text 1 3 = ''33.3''" "percent_text 1 16 = ''6.2''" "percent_text 3 16 = ''18.8''"
  "percent_text 0 4 = ''0.0''" "percent_text 999 999 = ''100.0''"
proof -
  have f: "\<lfloor>1000 / 3 :: real\<rfloor> = 333" "\<lfloor>125 / 2 :: real\<rfloor> = 62" "\<lfloor>375 / 2 :: real\<rfloor> = 187"
    by (simp_all add: floor_eq_iff)
  have s: "str_nat 0 = ''0''" "str_nat 2 = ''2''" "str_nat 3 = ''3''" "str_nat 6 = ''6''"
    "str_nat 8 = ''8''" "str_nat 18 = ''18''" "str_nat 33 = ''33''" "str_nat 100 = ''100''"
    by (simp_all add: str_nat.simps [of 0] str_nat.simps [of "Suc 0"] str_nat.simps [of 2]
          str_nat.simps [of 3] str_nat.simps [of 6] str_nat.simps [of 8] str_nat.simps [of 10]
          str_nat.simps [of 18] str_nat.simps [of 33] str_nat.simps [of 100] digit_char_def)
  show "percent_text 1 3 = ''33.3''"
    by (simp add: percent_text_def py_truediv_def str_round1_def rint_def Let_def f s)
  show "percent_text 1 16 = ''6.2''"
    by (simp add: percent_text_def py_truediv_def str_round1_def rint_def Let_def f s)
  show "percent_text 3 16 = ''18.8''"
    by (simp add: percent_text_def py_truediv_def str_round1_def rint_def Let_def f s)
  show "percent_text 0 4 = ''0.0''"
    by (simp add: percent_text_def py_truediv_def str_round1_def rint_def Let_def s)
  show "percent_text 999 999 = ''100.0''"
    by (simp add: percent_text_def py_truediv_def str_round1_def rint_def Let_def s)
qed

text \<open>
  C9. Every row that \<^verbatim>\<open>generate_stats\<close> returns comes from the locations that the sampling
  loop predicted for its address, and the text of \<^verbatim>\<open>percent_predictions_within_5_res8_krings\<close>
  denotes a number from 0 to 100: with no location it is the text 0, and otherwise it is a
  number of tenths, within half a tenth of the percentage of the locations whose cell at
  resolution 8 is in the ring of 5 around the asserted cell. When the sampling of a hotspot gives
  no location, its row is still built and the text is 0.
\<close>

theorem percent_within_bounds:
  "(\<forall>g' rows kr. generate_stats S d gw em ch g = Inr (g', rows) \<and> kr \<in> set rows \<longrightarrow>
      (\<exists>g_row g0 g1 pls v.
          loc gw (fst kr) = Inr g_row
        \<and> sample_loop S (map transmitter_coords (filter (\<lambda>x. witness_address x = fst kr) d)) em
             (asserted_location g_row) [0..<N] g0 [] = Inr (g1, pls)
        \<and> text_value (percent_predictions_within_5_res8_krings (snd kr)) = Some v
        \<and> 0 \<le> v \<and> v \<le> 100
        \<and> (pls = [] \<longrightarrow> percent_predictions_within_5_res8_krings (snd kr) = ''0'')
        \<and> (pls \<noteq> [] \<longrightarrow>
             (\<exists>k::nat. v = real k / 10)
             \<and> \<bar>v - 100 * real (length (filter (\<lambda>c. geo_to_h3 S (fst c) (snd c) 8
                                            \<in> set (k_ring S (asserted_hex_res8 g_row) 5)) pls))
                      / real (length pls)\<bar> \<le> 1 / 20)))
   \<and> (\<forall>g_row g'.
        3 \<le> length (filter (\<lambda>x. witness_address x = h) d) \<and> loc gw h = Inr g_row
        \<and> sample_loop S (map transmitter_coords (filter (\<lambda>x. witness_address x = h) d)) em
             (asserted_location g_row) [0..<N] g [] = Inr (g', []) \<longrightarrow>
        (\<exists>r. hotspot_stats S d gw em h g = Inr (g', Some r)
            \<and> percent_predictions_within_5_res8_krings r = ''0''))"
proof (intro conjI allI impI)
  fix g' rows kr
  assume a: "generate_stats S d gw em ch g = Inr (g', rows) \<and> kr \<in> set rows"
  then obtain g_row g0 g1 pls where
    l: "loc gw (fst kr) = Inr g_row"
    and s: "sample_loop S (map transmitter_coords (filter (\<lambda>x. witness_address x = fst kr) d)) em
             (asserted_location g_row) [0..<N] g0 [] = Inr (g1, pls)"
    and p: "percent_predictions_within_5_res8_krings (snd kr)
              = percent_predictions_within_5_res8_krings (stats_of S d g_row (fst kr) pls)"
    using generate_stats_source [of S d gw em ch g g' rows kr] by blast
  from percent_of_stats_value [of S d g_row "fst kr" pls] l s
  show "\<exists>g_row g0 g1 pls v.
          loc gw (fst kr) = Inr g_row
        \<and> sample_loop S (map transmitter_coords (filter (\<lambda>x. witness_address x = fst kr) d)) em
             (asserted_location g_row) [0..<N] g0 [] = Inr (g1, pls)
        \<and> text_value (percent_predictions_within_5_res8_krings (snd kr)) = Some v
        \<and> 0 \<le> v \<and> v \<le> 100
        \<and> (pls = [] \<longrightarrow> percent_predictions_within_5_res8_krings (snd kr) = ''0'')
        \<and> (pls \<noteq> [] \<longrightarrow>
             (\<exists>k::nat. v = real k / 10)
             \<and> \<bar>v - 100 * real (length (filter (\<lambda>c. geo_to_h3 S (fst c) (snd c) 8
                                            \<in> set (k_ring S (asserted_hex_res8 g_row) 5)) pls))
                      / real (length pls)\<bar> \<le> 1 / 20)"
    unfolding p by blast
next
  fix g_row g'
  assume "3 \<le> length (filter (\<lambda>x. witness_address x = h) d) \<and> loc gw h = Inr g_row
        \<and> sample_loop S (map transmitter_coords (filter (\<lambda>x. witness_address x = h) d)) em
             (asserted_location g_row) [0..<N] g [] = Inr (g', [])"
  then show "\<exists>r. hotspot_stats S d gw em h g = Inr (g', Some r)
            \<and> percent_predictions_within_5_res8_krings r = ''0''"
    by (simp add: hotspot_stats_def stats_of_def percent_text_none)
qed

lemma same_place_body:
  "sample_body flat_sampling [(0, 0), (0, 0), (0, 0)] em a (fst (turn g 3)) i pls = Inr (i, pls)"
  by (simp add: sample_body_def turn_def flat_sampling_def plane_haversine_def)

lemma same_place_run:
  "sample_loop flat_sampling [(0, 0), (0, 0), (0, 0)] em a ks g pls = Inr (g + length ks, pls)"
proof (induction ks arbitrary: g)
  case Nil
  then show ?case by simp
next
  case (Cons k ks)
  have p: "permutation flat_sampling g (length [(0, 0), (0, 0), (0, 0) :: coord])
           = (fst (turn g 3), Suc g)"
    by (simp add: flat_sampling_def turn_def)
  have "sample_loop flat_sampling [(0, 0), (0, 0), (0, 0)] em a (k # ks) g pls
        = sample_loop flat_sampling [(0, 0), (0, 0), (0, 0)] em a ks (Suc g) pls"
    by (rule sample_loop_step [OF p same_place_body])
  with Cons.IH [of "Suc g"] show ?case by simp
qed

lemma heard_by_w:
  "filter (\<lambda>x. witness_address x = ''w'') details_wv = [heard ''w'', heard ''w'', heard ''w'']"
  by (simp add: details_wv_def heard_def)

lemma heard_by_v:
  "filter (\<lambda>x. witness_address x = ''v'') details_wv = [heard ''v'', heard ''v'']"
  by (simp add: details_wv_def heard_def)

lemma loc_w: "loc inventory_w ''w'' = Inr (hd inventory_w)"
  by (simp add: loc_def inventory_w_def)

lemma hotspot_stats_w:
  "hotspot_stats flat_sampling details_wv inventory_w em ''w'' g
     = Inr (g + N, Some \<lparr>address = ''w'', percent_predictions_within_5_res8_krings = ''0'',
                         prediction_error_km = NaN, n_outliers = 0, n_beaconers_heard = 3\<rparr>)"
proof -
  have c: "map transmitter_coords (filter (\<lambda>x. witness_address x = ''w'') details_wv)
           = [(0, 0), (0, 0), (0, 0)]"
    by (simp add: heard_by_w) (simp add: heard_def)
  have o: "filter (\<lambda>x. witness_address x = ''w'' \<and> outliers x < 0) details_wv = []"
    by (simp add: details_wv_def heard_def)
  show ?thesis
    unfolding hotspot_stats_def c Let_def
    by (simp add: loc_w same_place_run stats_of_def percent_text_none np_median_def
          haversine_to_def o heard_by_w)
qed

lemma hotspot_stats_v:
  "hotspot_stats flat_sampling details_wv inventory_w em ''v'' g = Inr (g, None)"
  by (simp add: hotspot_stats_def heard_by_v)

lemma generate_stats_wv:
  "generate_stats flat_sampling details_wv inventory_w em 7 0
     = Inr (1000, [(''w'', \<lparr>address = ''w'', percent_predictions_within_5_res8_krings = ''0'',
                            prediction_error_km = NaN, n_outliers = 0, n_beaconers_heard = 3,
                            block = 7\<rparr>)])"
proof -
  have r: "remdups (map witness_address details_wv) = [''w'', ''v'']"
    by (simp add: details_wv_def heard_def)
  show ?thesis
    unfolding generate_stats_def r
    by (simp add: hotspot_stats_w hotspot_stats_v N_def)
qed

text \<open>The witness w, heard three times, has a row; the witness v, heard twice, has none.\<close>

theorem three_coordinates_needed_witness:
  "generate_stats flat_sampling details_wv inventory_w [] 7 0
     = Inr (1000, [(''w'', \<lparr>address = ''w'', percent_predictions_within_5_res8_krings = ''0'',
                            prediction_error_km = NaN, n_outliers = 0, n_beaconers_heard = 3,
                            block = 7\<rparr>)])
   \<and> length (filter (\<lambda>x. witness_address x = ''w'') details_wv) = 3
   \<and> length (filter (\<lambda>x. witness_address x = ''v'') details_wv) = 2
   \<and> ''w'' \<in> set (map fst [(''w'', \<lparr>address = ''w'', percent_predictions_within_5_res8_krings = ''0'',
                            prediction_error_km = NaN, n_outliers = 0, n_beaconers_heard = 3,
                            block = 7\<rparr>)])
   \<and> ''v'' \<notin> set (map fst [(''w'', \<lparr>address = ''w'', percent_predictions_within_5_res8_krings = ''0'',
                            prediction_error_km = NaN, n_outliers = 0, n_beaconers_heard = 3,
                            block = 7\<rparr>)])"
  using three_coordinates_needed [OF generate_stats_wv [of "[]"], of "''w''"]
    three_coordinates_needed [OF generate_stats_wv [of "[]"], of "''v''"]
    generate_stats_wv [of "[]"]
  by (simp add: heard_by_w heard_by_v)

lemma np_median_replicate: "0 < n \<Longrightarrow> np_median (replicate n x) = Fl x"
proof -
  assume n: "0 < n"
  have s: "sort (replicate n x) = replicate n x"
    by (rule sort_key_id_if_sorted) (simp add: sorted_replicate)
  have "n div 2 < n" and "n div 2 - 1 < n"
    using n by simp_all
  with n show ?thesis
    by (simp add: np_median_def s Let_def)
qed

lemma near_far_run:
  "sample_loop flat_sampling two_near_one_far [1, 1, 1] (0, 0) [0..<N] 0 []
     = Inr (1000, replicate 999 (1, 0))"
proof -
  have p: "permutation flat_sampling 0 (length two_near_one_far) = ([0, 1, 2], Suc 0)"
    by (simp add: flat_sampling_def len3 turn_first)
  have "sample_loop flat_sampling two_near_one_far [1, 1, 1] (0, 0) (0 # [1..<N]) 0 []
        = sample_loop flat_sampling two_near_one_far [1, 1, 1] (0, 0) [1..<N] (Suc 0) []"
    by (rule sample_loop_step [OF p near_pair_body])
  also have "\<dots> = Inr (Suc 0 + length [1..<N], [] @ replicate (length [1..<N]) (1, 0))"
    by (rule far_pair_run)
  also have "\<dots> = Inr (1000, replicate 999 (1, 0))"
    unfolding length_rest_N by simp
  finally show ?thesis
    by (simp only: range_N)
qed

lemma heard_near_far:
  "filter (\<lambda>x. witness_address x = ''w'') details_near_far = details_near_far"
  "map transmitter_coords details_near_far = two_near_one_far"
  "length details_near_far = 3"
  "filter (\<lambda>x. witness_address x = ''w'' \<and> outliers x < 0) details_near_far = []"
  "remdups (map witness_address details_near_far) = [''w'']"
  by (simp_all add: details_near_far_def heard_at_def two_near_one_far_def)

lemma hotspot_stats_near_far:
  "hotspot_stats flat_sampling details_near_far inventory_w [1, 1, 1] ''w'' 0
     = Inr (1000, Some \<lparr>address = ''w'', percent_predictions_within_5_res8_krings = ''100.0'',
                         prediction_error_km = Fl 1, n_outliers = 0, n_beaconers_heard = 3\<rparr>)"
proof -
  have i: "asserted_location (hd inventory_w) = (0, 0)" "asserted_hex_res8 (hd inventory_w) = ''cell''"
    by (simp_all add: inventory_w_def)
  have r: "filter (\<lambda>c. geo_to_h3 flat_sampling (fst c) (snd c) 8
                        \<in> set (k_ring flat_sampling ''cell'' 5)) (replicate 999 (1, 0))
           = replicate 999 (1, 0)"
    by (simp add: flat_sampling_def one_cell_def ring_of_def)
  have m: "np_median (map fst (replicate 999 (1 :: real, 0 :: real))) = Fl 1"
    "np_median (map snd (replicate 999 (1 :: real, 0 :: real))) = Fl 0"
    by (simp_all add: np_median_replicate)
  have h: "haversine flat_sampling (0, 0) (1, 0) = 1"
    by (simp add: flat_sampling_def plane_haversine_def)
  have s: "stats_of flat_sampling details_near_far (hd inventory_w) ''w'' (replicate 999 (1, 0))
           = \<lparr>address = ''w'', percent_predictions_within_5_res8_krings = ''100.0'',
              prediction_error_km = Fl 1, n_outliers = 0, n_beaconers_heard = 3\<rparr>"
    unfolding stats_of_def Let_def i r m heard_near_far
    by (simp add: percent_text_examples haversine_to_def h)
  show ?thesis
    unfolding hotspot_stats_def Let_def heard_near_far
    by (simp add: len3 loc_w i near_far_run s)
qed

lemma generate_stats_near_far:
  "generate_stats flat_sampling details_near_far inventory_w [1, 1, 1] 7 0
     = Inr (1000, [(''w'', \<lparr>address = ''w'', percent_predictions_within_5_res8_krings = ''100.0'',
                            prediction_error_km = Fl 1, n_outliers = 0, n_beaconers_heard = 3,
                            block = 7\<rparr>)])"
  unfolding generate_stats_def heard_near_far
  by (simp add: hotspot_stats_near_far)

text \<open>
  The two near places and the far one: the first draw is a close pair, the other 999 give a
  location in the asserted cell, and the text is 100.0. With all three places the same, every
  draw is a close pair and no location is predicted: the row has the text 0.
\<close>

theorem percent_within_bounds_witness:
  "generate_stats flat_sampling details_near_far inventory_w [1, 1, 1] 7 0
     = Inr (1000, [(''w'', \<lparr>address = ''w'', percent_predictions_within_5_res8_krings = ''100.0'',
                            prediction_error_km = Fl 1, n_outliers = 0, n_beaconers_heard = 3,
                            block = 7\<rparr>)])
   \<and> (\<exists>v. text_value ''100.0'' = Some v \<and> 0 \<le> v \<and> v \<le> 100)
   \<and> text_value ''100.0'' = Some 100
   \<and> 3 \<le> length (filter (\<lambda>x. witness_address x = ''w'') details_wv)
   \<and> loc inventory_w ''w'' = Inr (hd inventory_w)
   \<and> sample_loop flat_sampling
        (map transmitter_coords (filter (\<lambda>x. witness_address x = ''w'') details_wv)) []
        (asserted_location (hd inventory_w)) [0..<N] 0 [] = Inr (N, [])
   \<and> (\<exists>r. hotspot_stats flat_sampling details_wv inventory_w [] ''w'' 0 = Inr (N, Some r)
          \<and> percent_predictions_within_5_res8_krings r = ''0'')"
proof -
  let ?row = "(''w'', \<lparr>address = ''w'', percent_predictions_within_5_res8_krings = ''100.0'',
                            prediction_error_km = Fl 1, n_outliers = 0, n_beaconers_heard = 3,
                            block = 7\<rparr>)"
  note t1 = percent_within_bounds [of flat_sampling details_near_far inventory_w "[1, 1, 1]" 7 0 "''w''"]
  note t2 = percent_within_bounds [of flat_sampling details_wv inventory_w "[]" 7 0 "''w''"]
  have g: "generate_stats flat_sampling details_near_far inventory_w [1, 1, 1] 7 0
             = Inr (1000, [?row])"
    by (rule generate_stats_near_far)
  have "generate_stats flat_sampling details_near_far inventory_w [1, 1, 1] 7 0
             = Inr (1000, [?row]) \<and> ?row \<in> set [?row]"
    using g by simp
  with t1 have "\<exists>g_row g0 g1 pls v.
          loc inventory_w (fst ?row) = Inr g_row
        \<and> sample_loop flat_sampling
             (map transmitter_coords (filter (\<lambda>x. witness_address x = fst ?row) details_near_far))
             [1, 1, 1] (asserted_location g_row) [0..<N] g0 [] = Inr (g1, pls)
        \<and> text_value (percent_predictions_within_5_res8_krings (snd ?row)) = Some v
        \<and> 0 \<le> v \<and> v \<le> 100"
    by blast
  then have a: "\<exists>v. text_value ''100.0'' = Some v \<and> 0 \<le> v \<and> v \<le> 100"
    by auto
  have l: "3 \<le> length (filter (\<lambda>x. witness_address x = ''w'') details_wv)"
    by (simp add: heard_by_w)
  have c: "map transmitter_coords (filter (\<lambda>x. witness_address x = ''w'') details_wv)
           = [(0, 0), (0, 0), (0, 0)]"
    by (simp add: heard_by_w) (simp add: heard_def)
  have s: "sample_loop flat_sampling
        (map transmitter_coords (filter (\<lambda>x. witness_address x = ''w'') details_wv)) []
        (asserted_location (hd inventory_w)) [0..<N] 0 [] = Inr (N, [])"
    unfolding c by (simp add: same_place_run)
  have b: "\<exists>r. hotspot_stats flat_sampling details_wv inventory_w [] ''w'' 0 = Inr (N, Some r)
          \<and> percent_predictions_within_5_res8_krings r = ''0''"
    using t2 l loc_w s by blast
  have v: "text_value ''100.0'' = Some 100"
    by (simp add: text_value_def digit_value_def)
  from g a v l loc_w s b show ?thesis by blast
qed

end
